theory Spec2Isabelle
  imports Complex_Main
begin

section \<open>The votekick command\<close>

text \<open>
  A shallow embedding of \<^verbatim>\<open>src/commands/moderation/votekick.ts\<close>. The command is one
  asynchronous function, \<^verbatim>\<open>execute(msg, args)\<close>, that talks to a configuration store, the
  chat platform and a logger. The embedding makes each of these explicit:
  \<^item> the answers of the outside world are the fields of a record \<open>world\<close>, one field per
    call site, each answer being either a value (\<open>Inr\<close>) or a rejection (\<open>Inl\<close>);
  \<^item> everything the command does to the outside world is appended to a trace of
    \<open>event\<close>s, in program order;
  \<^item> a \<^verbatim>\<open>throw\<close>, an early \<^verbatim>\<open>return\<close> and falling through to the next statement are the
    three constructors of \<open>flow\<close>;
  \<^item> the promise that \<^verbatim>\<open>execute\<close> hands back to its caller is \<open>settled\<close>: fulfilled, or
    rejected with the fault that nothing caught.
\<close>

subsection \<open>Constants\<close>

definition VOTE_DURATION :: nat where
  "VOTE_DURATION = 60000"

definition REQUIRED_VOTES_PERCENTAGE :: real where
  "REQUIRED_VOTES_PERCENTAGE = 0.5"

subsection \<open>Data\<close>

text \<open>
  A thrown value: an \<^verbatim>\<open>Error\<close> object with its message, or any other value (an error of
  another name, a string, an object), given by its string conversion. Every fault the
  command raises itself is \<^verbatim>\<open>new Error(message)\<close>.
\<close>

datatype error = Error string | Thrown string

record user =
  user_id :: string
  username :: "string option"
  bot :: bool

text \<open>\<^verbatim>\<open>member._id.user\<close> is \<open>member_id\<close>; \<^verbatim>\<open>member.user\<close> may be absent.\<close>

record member =
  member_id :: string
  member_user :: "user option"

record server =
  server_id :: string

record channel =
  channel_server :: "server option"

text \<open>The invoking message: \<^verbatim>\<open>msg.channel\<close> and \<^verbatim>\<open>msg.author\<close> are optional.\<close>

record msg =
  msg_channel :: "channel option"
  msg_author :: "user option"

text \<open>
  The part of the server configuration the command reads:
  \<^verbatim>\<open>config.features.experiments.moderation\<close> and \<^verbatim>\<open>config.security.blockedUsers\<close>.
\<close>

record config =
  moderation :: bool
  blockedUsers :: "string list"

text \<open>
  A fetched message. \<^verbatim>\<open>message.reactions\<close> is an optional map from the encoded emoji to the
  set of users who reacted; the set is given by the list of its members and \<open>size_of\<close> is
  its \<^verbatim>\<open>size\<close>.
\<close>

record message =
  message_id :: string
  reactions :: "(string \<rightharpoonup> string list) option"

definition size_of :: "string list \<Rightarrow> nat" where
  "size_of s = length (remdups s)"

subsection \<open>Strings\<close>

text \<open>
  A string is the list of its code units, and a \<open>char\<close> is a code unit below 256 (Basic
  Latin and Latin-1). On such strings \<^verbatim>\<open>String.prototype.trim\<close> strips the white space and
  line terminators of that range: TAB, LF, VT, FF, CR, space and the no-break space
  \<open>0xA0\<close>. \<^verbatim>\<open>toLowerCase\<close> maps each code unit on its own: the letters \<open>A\<close> to \<open>Z\<close> (65 to 90)
  and the Latin-1 capitals \<open>0xC0\<close> to \<open>0xDE\<close> (192 to 222) without the multiplication sign
  \<open>0xD7\<close> (215) become lower-case by setting the bit of weight 32; every other code unit
  below 256 is unchanged. Then \<^verbatim>\<open>Array.prototype.join\<close>, \<^verbatim>\<open>includes\<close>, and the decimal
  rendering of a non-negative integer in a template literal.
\<close>

definition is_space :: "char \<Rightarrow> bool" where
  "is_space c =
     (c \<in> set [CHR '' '', CHR 0x09, CHR 0x0A, CHR 0x0B, CHR 0x0C, CHR 0x0D, CHR 0xA0])"

definition trim :: "string \<Rightarrow> string" where
  "trim s = rev (dropWhile is_space (rev (dropWhile is_space s)))"

definition lower_char :: "char \<Rightarrow> char" where
  "lower_char c =
     (let n = (of_char c :: nat)
      in if (65 \<le> n \<and> n \<le> 90) \<or> (192 \<le> n \<and> n \<le> 222 \<and> n \<noteq> 215)
         then (case c of Char b0 b1 b2 b3 b4 b5 b6 b7 \<Rightarrow> Char b0 b1 b2 b3 b4 True b6 b7)
         else c)"

definition toLowerCase :: "string \<Rightarrow> string" where
  "toLowerCase s = map lower_char s"

fun join :: "string \<Rightarrow> string list \<Rightarrow> string" where
  "join sep [] = []"
| "join sep [x] = x"
| "join sep (x # y # ys) = x @ sep @ join sep (y # ys)"

definition array_includes :: "'a list \<Rightarrow> 'a \<Rightarrow> bool" where
  "array_includes xs x = (x \<in> set xs)"

definition digit :: "nat \<Rightarrow> char" where
  "digit d = ''0123456789'' ! d"

fun show_nat :: "nat \<Rightarrow> string" where
  "show_nat n = (if n < 10 then [digit n] else show_nat (n div 10) @ [digit (n mod 10)])"

declare show_nat.simps [simp del]

text \<open>
  \<^verbatim>\<open>`${x}`\<close> for an optional string and for a thrown value. \<^verbatim>\<open>Error.prototype.toString\<close>
  gives the name alone when the message is empty, and the name, a colon, a space and the
  message otherwise.
\<close>

definition show_opt :: "string option \<Rightarrow> string" where
  "show_opt s = (case s of None \<Rightarrow> ''undefined'' | Some t \<Rightarrow> t)"

fun show_error :: "error \<Rightarrow> string" where
  "show_error (Error m) = (if m = [] then ''Error'' else ''Error: '' @ m)"
| "show_error (Thrown s) = s"

subsection \<open>The quorum decision (lines 145 and 146)\<close>

text \<open>
  \<^verbatim>\<open>Math.ceil(memberCount * REQUIRED_VOTES_PERCENTAGE)\<close>. The member count is an array
  length, below \<open>2^32\<close>, so halving it is exact in double precision and the real-number
  product is the value the program computes.
\<close>

definition requiredVotes :: "nat \<Rightarrow> int" where
  "requiredVotes memberCount = \<lceil>real memberCount * REQUIRED_VOTES_PERCENTAGE\<rceil>"

definition votekickPasses :: "nat \<Rightarrow> nat \<Rightarrow> int \<Rightarrow> bool" where
  "votekickPasses yesVotes noVotes required =
     (yesVotes > noVotes \<and> int yesVotes \<ge> required)"

subsection \<open>Replies\<close>

text \<open>
  One constructor for each \<^verbatim>\<open>msg.reply\<close> call of the source, in source order, carrying the
  values the source interpolates into it. \<open>render\<close> gives the embed (or plain text) that
  is sent.
\<close>

datatype reply =
    FeatureDisabled
  | InvalidUsage
  | AccessDenied
  | UserNotFound
  | CannotVotekickBot
  | VotekickStarted "string option" string "string option"
  | ReactionError
  | VotekickSuccessful "string option" nat nat string
  | KickFailed
  | VotekickFailed "string option" nat nat int
  | ErrorOccurred error

datatype content = Embed string string string | Text string

definition nl :: string where
  "nl = [CHR 0x0A]"

text \<open>
  The two vote markers. In the text of the announcement they are the emoji \<open>U+2705\<close> and
  \<open>U+274C\<close>, which lie outside the code units below 256 and are written here as their
  UTF-8 bytes; nothing in the command inspects the text of a reply. As reaction keys they
  are what \<^verbatim>\<open>encodeURIComponent\<close> makes of them, which is plain ASCII.
\<close>

definition CHECK_MARK :: string where
  "CHECK_MARK = [CHR 0xE2, CHR 0x9C, CHR 0x85]"

definition CROSS_MARK :: string where
  "CROSS_MARK = [CHR 0xE2, CHR 0x9D, CHR 0x8C]"

definition YES_MARKER :: string where
  "YES_MARKER = ''%E2%9C%85''"

definition NO_MARKER :: string where
  "NO_MARKER = ''%E2%9D%8C''"

fun render :: "reply \<Rightarrow> content" where
  "render FeatureDisabled =
     Embed ''Feature Disabled'' ''Moderation commands are disabled on this server'' ''#ff0000''"
| "render InvalidUsage =
     Embed ''Invalid Usage'' ''Please provide a user ID and reason'' ''#ff0000''"
| "render AccessDenied =
     Embed ''Access Denied'' ''You are blocked from using this command'' ''#ff0000''"
| "render UserNotFound =
     Embed ''Error''
       ''User not found in this server. Please provide a valid user ID or username.''
       ''#ff0000''"
| "render CannotVotekickBot =
     Embed ''Error'' ''Cannot votekick a bot'' ''#ff0000''"
| "render (VotekickStarted target reason author) =
     Embed ''Votekick Started''
       (join nl
         [''A votekick has been started against **'' @ show_opt target @ ''**'',
          ''**Reason**: '' @ reason,
          ''**Started by**: '' @ show_opt author,
          nl @ ''React with '' @ CHECK_MARK @ '' to vote YES'',
          ''React with '' @ CROSS_MARK @ '' to vote NO'',
          nl @ ''Vote ends in '' @ show_nat (VOTE_DURATION div 1000) @ '' seconds''])
       ''#ffff00''"
| "render ReactionError = Text ''Failed to start vote due to reaction error''"
| "render (VotekickSuccessful target yesVotes noVotes reason) =
     Embed ''Votekick Successful''
       (join nl
         [''**'' @ show_opt target @ ''** has been kicked'',
          ''**Final Votes**: Yes: '' @ show_nat yesVotes @ '', No: '' @ show_nat noVotes
            @ '' (Total: '' @ show_nat (yesVotes + noVotes) @ '')'',
          ''**Reason**: '' @ reason])
       ''#00ff00''"
| "render KickFailed =
     Embed ''Error''
       ''Votekick passed but failed to kick user. Make sure I have the required permissions.''
       ''#ff0000''"
| "render (VotekickFailed target yesVotes noVotes required) =
     Embed ''Votekick Failed''
       (join nl
         [''Not enough votes to kick **'' @ show_opt target @ ''**'',
          ''**Final Votes**: Yes: '' @ show_nat yesVotes @ '', No: '' @ show_nat noVotes
            @ '' (Total: '' @ show_nat (yesVotes + noVotes) @ '')'',
          ''**Required Votes**: '' @ show_nat (nat required)])
       ''#ff0000''"
| "render (ErrorOccurred e) =
     Embed ''Error''
       (''An error occurred while executing the votekick'' @ nl @ '' ```'' @ nl
          @ show_error e @ nl @ ''```'')
       ''#ff0000''"

subsection \<open>Effects\<close>

text \<open>
  What the command does to the outside world, in program order: a configuration lookup,
  a \<^verbatim>\<open>mainLogger.error\<close> call, a \<^verbatim>\<open>msg.reply\<close>, a roster fetch, a \<^verbatim>\<open>voteMessage.react\<close>, a
  \<^verbatim>\<open>setTimeout\<close>, a \<^verbatim>\<open>fetchMessage\<close> and the removal \<^verbatim>\<open>targetMember.kick()\<close>.
\<close>

datatype event =
    GetServerConfig string
  | LogError string error
  | Reply reply
  | FetchMembers
  | React string
  | SetTimeout nat
  | FetchMessage string
  | Kick string

text \<open>
  The answers of the outside world. All these calls are asynchronous: they fail by
  rejecting (\<open>Inl\<close>). The two configuration lookups (lines 19 and 42) and the two roster
  fetches (lines 58 and 143) are separate fields, since the world may change between
  them. \<open>reactNoRejectsFirst\<close> settles which rejection \<^verbatim>\<open>Promise.all\<close> reports when both
  attachments fail.
\<close>

record world =
  getServerConfig1 :: "string \<Rightarrow> error + config"
  getServerConfig2 :: "string \<Rightarrow> error + config"
  fetchMembers1 :: "error + member list option"
  msg_reply :: "reply \<Rightarrow> error + message option"
  react :: "string \<Rightarrow> error + unit"
  reactNoRejectsFirst :: bool
  fetchMessage :: "string \<Rightarrow> error + message option"
  fetchMembers2 :: "error + member list option"
  kick :: "string \<Rightarrow> error + unit"

datatype settled = Fulfilled | Rejected error

datatype 'a flow = Next 'a | Return settled | Throw error

type_synonym 'a step = "event list \<times> 'a flow"

text \<open>Sequencing: the rest runs only when the first part neither returned nor threw.\<close>

definition andThen :: "'a step \<Rightarrow> ('a \<Rightarrow> 'b step) \<Rightarrow> 'b step" where
  "andThen s f =
     (case s of
        (tr, Next a) \<Rightarrow> (case f a of (tr', r) \<Rightarrow> (tr @ tr', r))
      | (tr, Return p) \<Rightarrow> (tr, Return p)
      | (tr, Throw e) \<Rightarrow> (tr, Throw e))"

text \<open>\<^verbatim>\<open>await call\<close>: a rejection is thrown at the \<^verbatim>\<open>await\<close>.\<close>

definition await :: "event \<Rightarrow> error + 'a \<Rightarrow> 'a step" where
  "await ev answer = ([ev], case answer of Inl e \<Rightarrow> Throw e | Inr v \<Rightarrow> Next v)"

text \<open>
  \<^verbatim>\<open>return msg.reply(...)\<close>: the promise is handed back without being awaited, so its
  rejection is not thrown inside the function (no enclosing \<^verbatim>\<open>catch\<close> sees it); it
  rejects the promise of \<^verbatim>\<open>execute\<close>.
\<close>

definition delivery :: "world \<Rightarrow> reply \<Rightarrow> settled" where
  "delivery w r = (case msg_reply w r of Inl e \<Rightarrow> Rejected e | Inr _ \<Rightarrow> Fulfilled)"

definition return_reply :: "world \<Rightarrow> reply \<Rightarrow> 'a step" where
  "return_reply w r = ([Reply r], Return (delivery w r))"

subsection \<open>Reading the invoking message\<close>

text \<open>\<^verbatim>\<open>msg.channel?.server\<close>, \<^verbatim>\<open>msg.channel?.server?._id ?? ''\<close> and \<^verbatim>\<open>msg.author?._id ?? ''\<close>.\<close>

definition server_of :: "msg \<Rightarrow> server option" where
  "server_of m = (case msg_channel m of None \<Rightarrow> None | Some c \<Rightarrow> channel_server c)"

definition serverId :: "msg \<Rightarrow> string" where
  "serverId m = (case server_of m of None \<Rightarrow> [] | Some s \<Rightarrow> server_id s)"

definition authorId :: "msg \<Rightarrow> string" where
  "authorId m = (case msg_author m of None \<Rightarrow> [] | Some u \<Rightarrow> user_id u)"

definition authorName :: "msg \<Rightarrow> string option" where
  "authorName m = (case msg_author m of None \<Rightarrow> None | Some u \<Rightarrow> username u)"

definition memberName :: "member \<Rightarrow> string option" where
  "memberName t = (case member_user t of None \<Rightarrow> None | Some u \<Rightarrow> username u)"

subsection \<open>Target resolution (lines 56 to 69)\<close>

text \<open>
  The callback of \<^verbatim>\<open>find\<close>: exact identifier match, or a non-empty trimmed username equal
  to the search term up to case.
\<close>

definition matches :: "string \<Rightarrow> member \<Rightarrow> bool" where
  "matches arg0 m =
     (let searchTerm = trim arg0;
          name = map_option trim (memberName m)
      in member_id m = searchTerm \<or>
         (case name of
            None \<Rightarrow> False
          | Some n \<Rightarrow> n \<noteq> [] \<and> toLowerCase n = toLowerCase searchTerm))"

text \<open>
  The inner \<^verbatim>\<open>try\<close>: a rejected roster fetch is logged and leaves \<^verbatim>\<open>targetMember\<close>
  undefined. Without a server the optional chain yields undefined and nothing is called.
\<close>

definition resolveTarget :: "world \<Rightarrow> msg \<Rightarrow> string list \<Rightarrow> (member option) step" where
  "resolveTarget w m args =
     (case server_of m of
        None \<Rightarrow> ([], Next None)
      | Some _ \<Rightarrow>
          (case fetchMembers1 w of
             Inl e \<Rightarrow> ([FetchMembers, LogError ''Error fetching members:'' e], Next None)
           | Inr None \<Rightarrow> ([FetchMembers], Next None)
           | Inr (Some members) \<Rightarrow> ([FetchMembers], Next (find (matches (args ! 0)) members))))"

subsection \<open>Reaction setup (lines 113 to 122)\<close>

text \<open>
  \<^verbatim>\<open>Promise.all\<close> of the two attachments: both are started, and the first rejection, if
  any, is the one thrown.
\<close>

definition promise_all2 :: "bool \<Rightarrow> error + unit \<Rightarrow> error + unit \<Rightarrow> error + unit" where
  "promise_all2 secondFirst a b =
     (case (a, b) of
        (Inr _, Inr _) \<Rightarrow> Inr ()
      | (Inl e, Inr _) \<Rightarrow> Inl e
      | (Inr _, Inl e) \<Rightarrow> Inl e
      | (Inl e, Inl e') \<Rightarrow> Inl (if secondFirst then e' else e))"

definition addReactions :: "world \<Rightarrow> unit step" where
  "addReactions w =
     (case promise_all2 (reactNoRejectsFirst w) (react w YES_MARKER) (react w NO_MARKER) of
        Inr _ \<Rightarrow> ([React YES_MARKER, React NO_MARKER], Next ())
      | Inl e \<Rightarrow>
          andThen
            ([React YES_MARKER, React NO_MARKER, LogError ''Failed to add vote reactions:'' e],
             Next ())
            (\<lambda>_. andThen (await (Reply ReactionError) (msg_reply w ReactionError))
            (\<lambda>_. ([], Return Fulfilled))))"

subsection \<open>The timeout race (lines 125 to 129)\<close>

text \<open>
  Two timers are started in the same turn of the event loop. A timer settles its promise
  when its delay has elapsed; timers fire in the order of their delays, and among equal
  delays in the order they were started. \<^verbatim>\<open>Promise.race\<close> takes the settlement of the
  timer that fires first.
\<close>

datatype timer_action = Resolves | Rejects error

type_synonym timer = "nat \<times> timer_action"

fun first_to_fire :: "timer \<Rightarrow> timer list \<Rightarrow> timer" where
  "first_to_fire t [] = t"
| "first_to_fire t (u # us) = first_to_fire (if fst u < fst t then u else t) us"

definition promise_race :: "timer \<Rightarrow> timer list \<Rightarrow> timer_action" where
  "promise_race t ts = snd (first_to_fire t ts)"

definition primary_timer :: "nat \<Rightarrow> timer" where
  "primary_timer duration = (duration, Resolves)"

definition safety_timer :: "nat \<Rightarrow> timer" where
  "safety_timer duration = (duration + 1000, Rejects (Error ''Vote timed out''))"

definition timeoutRace :: "nat \<Rightarrow> unit step" where
  "timeoutRace duration =
     ([SetTimeout (fst (primary_timer duration)), SetTimeout (fst (safety_timer duration))],
      case promise_race (primary_timer duration) [safety_timer duration] of
        Resolves \<Rightarrow> Next ()
      | Rejects e \<Rightarrow> Throw e)"

subsection \<open>The tally (lines 132 to 144)\<close>

text \<open>\<^verbatim>\<open>message.reactions?.get(marker)?.size || 0\<close>.\<close>

definition votes :: "message \<Rightarrow> string \<Rightarrow> nat" where
  "votes message marker =
     (case reactions message of
        None \<Rightarrow> 0
      | Some r \<Rightarrow> (case r marker of None \<Rightarrow> 0 | Some users \<Rightarrow> size_of users))"

text \<open>
  \<^verbatim>\<open>await msg.channel?.fetchMessage(voteMessage._id)\<close>, then
  \<^verbatim>\<open>if (!message) throw ...\<close>.
\<close>

definition fetchVoteMessage :: "world \<Rightarrow> msg \<Rightarrow> message \<Rightarrow> message step" where
  "fetchVoteMessage w m voteMessage =
     andThen
       (case msg_channel m of
          None \<Rightarrow> ([], Next None)
        | Some _ \<Rightarrow>
            await (FetchMessage (message_id voteMessage))
              (fetchMessage w (message_id voteMessage)))
       (\<lambda>message. case message of
          None \<Rightarrow> ([], Throw (Error ''Could not fetch vote message''))
        | Some fetched \<Rightarrow> ([], Next fetched))"

text \<open>
  \<^verbatim>\<open>(await msg.channel?.server?.fetchMembers())?.members.length\<close>, of type
  \<^verbatim>\<open>number | undefined\<close>, then \<^verbatim>\<open>if (!memberCount) throw ...\<close>: both undefined and \<open>0\<close> are
  falsy.
\<close>

definition fetchMemberCount :: "world \<Rightarrow> msg \<Rightarrow> nat step" where
  "fetchMemberCount w m =
     andThen
       (case server_of m of
          None \<Rightarrow> ([], Next None)
        | Some _ \<Rightarrow> await FetchMembers (fetchMembers2 w))
       (\<lambda>members.
          let memberCount = map_option length members
          in case memberCount of
               None \<Rightarrow> ([], Throw (Error ''Failed to fetch member count''))
             | Some n \<Rightarrow>
                 if n = 0 then ([], Throw (Error ''Failed to fetch member count''))
                 else ([], Next n))"

definition tally :: "world \<Rightarrow> msg \<Rightarrow> message \<Rightarrow> (nat \<times> nat \<times> nat) step" where
  "tally w m voteMessage =
     andThen (fetchVoteMessage w m voteMessage) (\<lambda>message.
       let yesVotes = votes message YES_MARKER;
           noVotes = votes message NO_MARKER
       in andThen (fetchMemberCount w m) (\<lambda>memberCount.
            ([], Next (yesVotes, noVotes, memberCount))))"

subsection \<open>Decision and action (lines 145 to 184)\<close>

text \<open>
  The removal is awaited inside its own \<^verbatim>\<open>try\<close>; its rejection is logged and answered by
  the \<open>KickFailed\<close> reply. All three replies are returned, not awaited.
\<close>

definition removal :: "world \<Rightarrow> member \<Rightarrow> string \<Rightarrow> nat \<Rightarrow> nat \<Rightarrow> unit step" where
  "removal w targetMember reason yesVotes noVotes =
     (case kick w (member_id targetMember) of
        Inr _ \<Rightarrow>
          andThen ([Kick (member_id targetMember)], Next ())
            (\<lambda>_. return_reply w
               (VotekickSuccessful (memberName targetMember) yesVotes noVotes reason))
      | Inl e \<Rightarrow>
          andThen
            ([Kick (member_id targetMember),
              LogError ''Failed to kick user after successful votekick:'' e], Next ())
            (\<lambda>_. return_reply w KickFailed))"

definition conclude :: "world \<Rightarrow> member \<Rightarrow> string \<Rightarrow> nat \<Rightarrow> nat \<Rightarrow> nat \<Rightarrow> unit step" where
  "conclude w targetMember reason yesVotes noVotes memberCount =
     (let required = requiredVotes memberCount
      in if votekickPasses yesVotes noVotes required
         then removal w targetMember reason yesVotes noVotes
         else return_reply w
                (VotekickFailed (memberName targetMember) yesVotes noVotes required))"

subsection \<open>The guarded region (lines 41 to 184)\<close>

definition is_bot :: "member \<Rightarrow> bool" where
  "is_bot t = (case member_user t of None \<Rightarrow> False | Some u \<Rightarrow> bot u)"

definition reason_of :: "string list \<Rightarrow> string" where
  "reason_of args = trim (join '' '' (drop 1 args))"

definition announce :: "world \<Rightarrow> msg \<Rightarrow> member \<Rightarrow> string \<Rightarrow> message step" where
  "announce w m targetMember reason =
     (let started = VotekickStarted (memberName targetMember) reason (authorName m)
      in andThen (await (Reply started) (msg_reply w started))
           (\<lambda>voteMessage. case voteMessage of
              None \<Rightarrow> ([], Throw (Error ''Failed to create vote message''))
            | Some sent \<Rightarrow> ([], Next sent)))"

definition poll :: "world \<Rightarrow> msg \<Rightarrow> member \<Rightarrow> string \<Rightarrow> unit step" where
  "poll w m targetMember reason =
     andThen (announce w m targetMember reason) (\<lambda>voteMessage.
     andThen (addReactions w) (\<lambda>_.
     andThen (timeoutRace VOTE_DURATION) (\<lambda>_.
     andThen (tally w m voteMessage) (\<lambda>(yesVotes, noVotes, memberCount).
       conclude w targetMember reason yesVotes noVotes memberCount))))"

text \<open>
  Lines 41 to 90: the blocklist check, target resolution and the bot check, each
  returning its reply on failure; on success the resolved target goes on to the poll.
\<close>

definition eligibility :: "world \<Rightarrow> msg \<Rightarrow> string list \<Rightarrow> member step" where
  "eligibility w m args =
     andThen (await (GetServerConfig (serverId m)) (getServerConfig2 w (serverId m)))
       (\<lambda>serverConfig.
          if array_includes (blockedUsers serverConfig) (authorId m)
          then return_reply w AccessDenied
          else andThen (resolveTarget w m args) (\<lambda>targetMember.
            case targetMember of
              None \<Rightarrow> return_reply w UserNotFound
            | Some t \<Rightarrow>
                if is_bot t then return_reply w CannotVotekickBot
                else ([], Next t)))"

definition tryBody :: "world \<Rightarrow> msg \<Rightarrow> string list \<Rightarrow> unit step" where
  "tryBody w m args =
     andThen (eligibility w m args) (\<lambda>targetMember.
       poll w m targetMember (reason_of args))"

subsection \<open>The command (lines 14 to 195)\<close>

text \<open>
  The first configuration lookup and the two replies before \<^verbatim>\<open>try\<close> are outside the
  guarded region. The \<^verbatim>\<open>catch\<close> clause logs and returns the generic reply.
\<close>

definition settle :: "unit step \<Rightarrow> event list \<times> settled" where
  "settle s =
     (case s of
        (tr, Next _) \<Rightarrow> (tr, Fulfilled)
      | (tr, Return p) \<Rightarrow> (tr, p)
      | (tr, Throw e) \<Rightarrow> (tr, Rejected e))"

definition catch_all :: "world \<Rightarrow> unit step \<Rightarrow> unit step" where
  "catch_all w s =
     (case s of
        (tr, Throw e) \<Rightarrow>
          andThen (tr @ [LogError ''Error in votekick command:'' e], Next ())
            (\<lambda>_. return_reply w (ErrorOccurred e))
      | _ \<Rightarrow> s)"

definition execute :: "world \<Rightarrow> msg \<Rightarrow> string list option \<Rightarrow> event list \<times> settled" where
  "execute w m args =
     settle
       (andThen (await (GetServerConfig (serverId m)) (getServerConfig1 w (serverId m)))
          (\<lambda>config.
             if \<not> moderation config then return_reply w FeatureDisabled
             else case args of
                    None \<Rightarrow> return_reply w InvalidUsage
                  | Some as \<Rightarrow>
                      if length as < 2 then return_reply w InvalidUsage
                      else catch_all w (tryBody w m as)))"

section \<open>Observations on a run\<close>

text \<open>
  Predicates on events, used to state what a run did: whether an event is the removal,
  whether it is one of the three replies that report a quorum decision, and whether it
  belongs to a stage after the reaction setup.
\<close>

fun is_kick :: "event \<Rightarrow> bool" where
  "is_kick (Kick _) = True"
| "is_kick _ = False"

fun is_decision_reply :: "event \<Rightarrow> bool" where
  "is_decision_reply (Reply (VotekickSuccessful _ _ _ _)) = True"
| "is_decision_reply (Reply KickFailed) = True"
| "is_decision_reply (Reply (VotekickFailed _ _ _ _)) = True"
| "is_decision_reply _ = False"

fun after_setup :: "event \<Rightarrow> bool" where
  "after_setup (SetTimeout _) = True"
| "after_setup (FetchMessage _) = True"
| "after_setup (Kick _) = True"
| "after_setup ev = is_decision_reply ev"

fun is_top_level_log :: "event \<Rightarrow> bool" where
  "is_top_level_log (LogError label _) = (label = ''Error in votekick command:'')"
| "is_top_level_log _ = False"

fun is_generic_reply :: "event \<Rightarrow> bool" where
  "is_generic_reply (Reply (ErrorOccurred _)) = True"
| "is_generic_reply _ = False"

section \<open>Scenarios\<close>

text \<open>
  A server of twelve members in which carol starts a votekick against Alice; seven
  members vote yes and two vote no. mallory is on the blocklist.
\<close>

definition alice :: member where
  "alice = \<lparr>member_id = ''u-alice'',
     member_user = Some \<lparr>user_id = ''u-alice'', username = Some ''Alice'', bot = False\<rparr>\<rparr>"

definition bob :: member where
  "bob = \<lparr>member_id = ''u-bob'',
     member_user = Some \<lparr>user_id = ''u-bob'', username = Some ''bob'', bot = False\<rparr>\<rparr>"

definition townsfolk :: "member list" where
  "townsfolk =
     map (\<lambda>name. \<lparr>member_id = ''u-'' @ name,
            member_user = Some \<lparr>user_id = ''u-'' @ name, username = Some name, bot = False\<rparr>\<rparr>)
       [''bob'', ''dave'', ''erin'', ''frank'', ''grace'', ''heidi'', ''ivan'', ''judy'', ''ken'',
        ''lena'', ''mike'']"

definition carol :: user where
  "carol = \<lparr>user_id = ''u-carol'', username = Some ''carol'', bot = False\<rparr>"

definition mallory :: user where
  "mallory = \<lparr>user_id = ''u-mallory'', username = Some ''mallory'', bot = False\<rparr>"

definition home :: channel where
  "home = \<lparr>channel_server = Some \<lparr>server_id = ''srv''\<rparr>\<rparr>"

definition the_msg :: msg where
  "the_msg = \<lparr>msg_channel = Some home, msg_author = Some carol\<rparr>"

definition the_args :: "string list" where
  "the_args = [''alice'', ''spamming'', ''links'']"

definition enabled :: config where
  "enabled = \<lparr>moderation = True, blockedUsers = [''u-mallory'']\<rparr>"

definition posted :: message where
  "posted = \<lparr>message_id = ''vote-1'', reactions = None\<rparr>"

definition ballot :: "string list \<Rightarrow> string list \<Rightarrow> message" where
  "ballot yes no =
     \<lparr>message_id = ''vote-1'', reactions = Some [YES_MARKER \<mapsto> yes, NO_MARKER \<mapsto> no]\<rparr>"

definition seven_two :: message where
  "seven_two = ballot [''v1'', ''v2'', ''v3'', ''v4'', ''v5'', ''v6'', ''v7''] [''n1'', ''n2'']"

definition scenario_A :: world where
  "scenario_A =
     \<lparr>getServerConfig1 = (\<lambda>_. Inr enabled),
      getServerConfig2 = (\<lambda>_. Inr enabled),
      fetchMembers1 = Inr (Some (alice # townsfolk)),
      msg_reply = (\<lambda>_. Inr (Some posted)),
      react = (\<lambda>_. Inr ()),
      reactNoRejectsFirst = False,
      fetchMessage = (\<lambda>_. Inr (Some seven_two)),
      fetchMembers2 = Inr (Some (alice # townsfolk)),
      kick = (\<lambda>_. Inr ())\<rparr>"

text \<open>Variations: what the world answers differently, everything else as in scenario A.\<close>

definition empty_roster :: "message \<Rightarrow> world" where
  "empty_roster fetched =
     scenario_A\<lparr>fetchMessage := (\<lambda>_. Inr (Some fetched)), fetchMembers2 := Inr (Some [])\<rparr>"

definition lookup_down :: world where
  "lookup_down = scenario_A\<lparr>getServerConfig1 := (\<lambda>_. Inl (Error ''database unavailable''))\<rparr>"

definition refetch_down :: world where
  "refetch_down = scenario_A\<lparr>fetchMessage := (\<lambda>_. Inl (Error ''message unavailable''))\<rparr>"

definition roster_down :: world where
  "roster_down = scenario_A\<lparr>fetchMembers1 := Inl (Error ''roster unavailable'')\<rparr>"

definition no_marker_allowed :: world where
  "no_marker_allowed =
     scenario_A\<lparr>react :=
       (\<lambda>marker. if marker = NO_MARKER then Inl (Error ''Missing permission'') else Inr ())\<rparr>"

definition markers_missing :: world where
  "markers_missing = scenario_A\<lparr>fetchMessage := (\<lambda>_. Inr (Some posted))\<rparr>"

definition moderation_off :: world where
  "moderation_off =
     scenario_A\<lparr>getServerConfig1 := (\<lambda>_. Inr \<lparr>moderation = False, blockedUsers = []\<rparr>)\<rparr>"

definition robot :: member where
  "robot = \<lparr>member_id = ''u-robot'',
     member_user = Some \<lparr>user_id = ''u-robot'', username = Some ''Robot'', bot = True\<rparr>\<rparr>"

definition robot_args :: "string list" where
  "robot_args = [''robot'', ''beeping'']"

definition with_robot :: world where
  "with_robot = scenario_A\<lparr>fetchMembers1 := Inr (Some [alice, robot, bob])\<rparr>"

definition mallory_msg :: msg where
  "mallory_msg = \<lparr>msg_channel = Some home, msg_author = Some mallory\<rparr>"

definition bad_args :: "string list" where
  "bad_args = [''nobody'', ''no reason'']"

section \<open>Shapes of a run\<close>

text \<open>
  Names for the stretches of a trace that every poll shares: the announcement and the
  events up to it, the two marker attachments, the two timers, and what the top-level
  \<^verbatim>\<open>catch\<close> clause adds for a fault \<open>e\<close>.
\<close>

abbreviation announcement :: "msg \<Rightarrow> member \<Rightarrow> string list \<Rightarrow> reply" where
  "announcement m t as \<equiv> VotekickStarted (memberName t) (reason_of as) (authorName m)"

abbreviation prelude :: "msg \<Rightarrow> member \<Rightarrow> string list \<Rightarrow> event list" where
  "prelude m t as \<equiv>
     [GetServerConfig (serverId m), GetServerConfig (serverId m), FetchMembers,
      Reply (announcement m t as)]"

abbreviation markers :: "event list" where
  "markers \<equiv> [React YES_MARKER, React NO_MARKER]"

abbreviation timers :: "event list" where
  "timers \<equiv> [SetTimeout 60000, SetTimeout 61000]"

abbreviation caught :: "error \<Rightarrow> event list" where
  "caught e \<equiv> [LogError ''Error in votekick command:'' e, Reply (ErrorOccurred e)]"

section \<open>Properties\<close>

subsection \<open>Unfolding\<close>

lemmas string_defs = trim_def is_space_def toLowerCase_def lower_char_def array_includes_def
  size_of_def YES_MARKER_def NO_MARKER_def

lemmas quorum_defs = votekickPasses_def requiredVotes_def REQUIRED_VOTES_PERCENTAGE_def

lemmas stage_defs = resolveTarget_def matches_def addReactions_def promise_all2_def
  timeoutRace_def safety_timer_def primary_timer_def promise_race_def VOTE_DURATION_def
  votes_def fetchVoteMessage_def fetchMemberCount_def tally_def removal_def conclude_def
  announce_def poll_def eligibility_def tryBody_def is_bot_def reason_of_def

lemmas flow_defs = execute_def settle_def catch_all_def return_reply_def await_def andThen_def
  memberName_def authorName_def authorId_def serverId_def server_of_def

lemmas scenario_defs = scenario_A_def the_msg_def the_args_def alice_def bob_def townsfolk_def
  carol_def
  mallory_def home_def enabled_def posted_def ballot_def seven_two_def empty_roster_def
  lookup_down_def refetch_down_def roster_down_def no_marker_allowed_def markers_missing_def
  mallory_msg_def bad_args_def moderation_off_def robot_def robot_args_def with_robot_def

lemma string_examples:
  "toLowerCase ''Alice Z'' = ''alice z''"
  "lower_char (CHR 0xC9) = CHR 0xE9"
  "lower_char (CHR 0xD7) = CHR 0xD7"
  "lower_char (CHR 0xDF) = CHR 0xDF"
  "trim [CHR 0xA0, CHR 0x09, CHR ''a'', CHR '' '', CHR ''b'', CHR 0x0A, CHR '' ''] = ''a b''"
  "show_error (Error []) = ''Error''"
  "show_error (Error ''x'') = ''Error: x''"
  by (simp_all add: toLowerCase_def lower_char_def trim_def is_space_def)

lemma requiredVotes_half: "requiredVotes memberCount = (int memberCount + 1) div 2"
  unfolding requiredVotes_def REQUIRED_VOTES_PERCENTAGE_def by simp linarith

lemma required_le_iff: "(requiredVotes memberCount \<le> int yesVotes) = (memberCount \<le> 2 * yesVotes)"
  unfolding requiredVotes_half by linarith

subsection \<open>Sequencing\<close>

lemma andThen_Next: "andThen (tr, Next a) f = (tr @ fst (f a), snd (f a))"
  by (simp add: andThen_def split: prod.splits)
lemma andThen_Return: "andThen (tr, Return p) f = (tr, Return p)"
  by (simp add: andThen_def)
lemma andThen_Throw: "andThen (tr, Throw e) f = (tr, Throw e)"
  by (simp add: andThen_def)
lemmas andThen_simps = andThen_Next andThen_Return andThen_Throw

lemma fst_andThen:
  "fst (andThen s f) = fst s @ (case snd s of Next a \<Rightarrow> fst (f a) | _ \<Rightarrow> [])"
  by (cases s; cases "snd s") (auto simp: andThen_simps)

lemma snd_andThen:
  "snd (andThen s f) =
     (case snd s of Next a \<Rightarrow> snd (f a) | Return p \<Rightarrow> Return p | Throw e \<Rightarrow> Throw e)"
  by (cases s; cases "snd s") (auto simp: andThen_simps)

subsection \<open>The runs of each stage\<close>

text \<open>
  Each stage has finitely many ways to run; each rule below lists them with the answers of
  the world that select them and the trace and outcome they give.
\<close>

lemma timeoutRace_resolves: "timeoutRace d = ([SetTimeout d, SetTimeout (d + 1000)], Next ())"
  by (simp add: timeoutRace_def promise_race_def primary_timer_def safety_timer_def)

lemma resolveTarget_runs [case_names no_server roster_rejected not_found found]:
  obtains
    (no_server)
      "server_of m = None"
      "resolveTarget w m as = ([], Next None)"
  | (roster_rejected) s e where
      "server_of m = Some s"
      "fetchMembers1 w = Inl e"
      "resolveTarget w m as =
         ([FetchMembers, LogError ''Error fetching members:'' e], Next None)"
  | (not_found) s where
      "server_of m = Some s"
      "fetchMembers1 w = Inr None \<or>
       (\<exists>roster. fetchMembers1 w = Inr (Some roster) \<and> find (matches (as ! 0)) roster = None)"
      "resolveTarget w m as = ([FetchMembers], Next None)"
  | (found) s roster t where
      "server_of m = Some s"
      "fetchMembers1 w = Inr (Some roster)"
      "find (matches (as ! 0)) roster = Some t"
      "resolveTarget w m as = ([FetchMembers], Next (Some t))"
proof (cases "server_of m")
  case None
  then show thesis
    by (intro no_server) (simp_all add: resolveTarget_def)
next
  case (Some s)
  show thesis
  proof (cases "fetchMembers1 w")
    case (Inl e)
    with Some show thesis
      by (intro roster_rejected [of s e]) (simp_all add: resolveTarget_def)
  next
    case (Inr answer)
    show thesis
    proof (cases answer)
      case None
      with Some Inr show thesis
        by (intro not_found [of s]) (simp_all add: resolveTarget_def)
    next
      case roster: (Some roster)
      show thesis
      proof (cases "find (matches (as ! 0)) roster")
        case None
        with Some Inr roster show thesis
          by (intro not_found [of s]) (simp_all add: resolveTarget_def)
      next
        case target: (Some t)
        with Some Inr roster show thesis
          by (intro found [of s roster t]) (simp_all add: resolveTarget_def)
      qed
    qed
  qed
qed

lemma eligibility_runs [case_names blocklist_rejected blocked no_server roster_rejected
    not_found bot admitted]:
  obtains
    (blocklist_rejected) e where
      "getServerConfig2 w (serverId m) = Inl e"
      "eligibility w m as = ([GetServerConfig (serverId m)], Throw e)"
  | (blocked) c2 where
      "getServerConfig2 w (serverId m) = Inr c2"
      "authorId m \<in> set (blockedUsers c2)"
      "eligibility w m as =
         ([GetServerConfig (serverId m), Reply AccessDenied], Return (delivery w AccessDenied))"
  | (no_server) c2 where
      "getServerConfig2 w (serverId m) = Inr c2"
      "authorId m \<notin> set (blockedUsers c2)"
      "server_of m = None"
      "eligibility w m as =
         ([GetServerConfig (serverId m), Reply UserNotFound], Return (delivery w UserNotFound))"
  | (roster_rejected) c2 s e where
      "getServerConfig2 w (serverId m) = Inr c2"
      "authorId m \<notin> set (blockedUsers c2)"
      "server_of m = Some s"
      "fetchMembers1 w = Inl e"
      "eligibility w m as =
         ([GetServerConfig (serverId m), FetchMembers,
           LogError ''Error fetching members:'' e, Reply UserNotFound],
          Return (delivery w UserNotFound))"
  | (not_found) c2 s where
      "getServerConfig2 w (serverId m) = Inr c2"
      "authorId m \<notin> set (blockedUsers c2)"
      "server_of m = Some s"
      "fetchMembers1 w = Inr None \<or>
       (\<exists>roster. fetchMembers1 w = Inr (Some roster) \<and> find (matches (as ! 0)) roster = None)"
      "eligibility w m as =
         ([GetServerConfig (serverId m), FetchMembers, Reply UserNotFound],
          Return (delivery w UserNotFound))"
  | (bot) c2 s roster t where
      "getServerConfig2 w (serverId m) = Inr c2"
      "authorId m \<notin> set (blockedUsers c2)"
      "server_of m = Some s"
      "fetchMembers1 w = Inr (Some roster)"
      "find (matches (as ! 0)) roster = Some t"
      "is_bot t"
      "eligibility w m as =
         ([GetServerConfig (serverId m), FetchMembers, Reply CannotVotekickBot],
          Return (delivery w CannotVotekickBot))"
  | (admitted) c2 s roster t where
      "getServerConfig2 w (serverId m) = Inr c2"
      "authorId m \<notin> set (blockedUsers c2)"
      "server_of m = Some s"
      "fetchMembers1 w = Inr (Some roster)"
      "find (matches (as ! 0)) roster = Some t"
      "\<not> is_bot t"
      "eligibility w m as = ([GetServerConfig (serverId m), FetchMembers], Next t)"
proof -
  note rules = that
  note unfold = eligibility_def await_def andThen_simps array_includes_def return_reply_def
  show thesis
  proof (cases "getServerConfig2 w (serverId m)")
    case (Inl e)
    then show thesis
      by (intro rules(1) [of e]) (simp_all add: unfold)
  next
    case (Inr c2)
    show thesis
    proof (cases "authorId m \<in> set (blockedUsers c2)")
      case True
      with Inr show thesis
        by (intro rules(2) [of c2]) (simp_all add: unfold)
    next
      case False
      show thesis
      proof (cases rule: resolveTarget_runs [of m w as])
        case no_server
        with Inr False show thesis
          by (intro rules(3) [of c2]) (simp_all add: unfold)
      next
        case (roster_rejected s e)
        with Inr False show thesis
          by (intro rules(4) [of c2 s e]) (simp_all add: unfold)
      next
        case (not_found s)
        with Inr False show thesis
          by (intro rules(5) [of c2 s]) (simp_all add: unfold)
      next
        case (found s roster t)
        with Inr False show thesis
          by (cases "is_bot t")
            (auto intro: rules(6) [of c2 s roster t] rules(7) [of c2 s roster t]
              simp add: unfold)
      qed
    qed
  qed
qed

lemma tally_runs [consumes 2, case_names refetch_rejected refetch_empty count_rejected count_missing counted]:
  assumes "msg_channel m = Some ch" and "server_of m = Some s"
  obtains
    (refetch_rejected) e where
      "fetchMessage w (message_id vm) = Inl e"
      "tally w m vm = ([FetchMessage (message_id vm)], Throw e)"
  | (refetch_empty)
      "fetchMessage w (message_id vm) = Inr None"
      "tally w m vm =
         ([FetchMessage (message_id vm)], Throw (Error ''Could not fetch vote message''))"
  | (count_rejected) fetched e where
      "fetchMessage w (message_id vm) = Inr (Some fetched)"
      "fetchMembers2 w = Inl e"
      "tally w m vm = ([FetchMessage (message_id vm), FetchMembers], Throw e)"
  | (count_missing) fetched where
      "fetchMessage w (message_id vm) = Inr (Some fetched)"
      "fetchMembers2 w = Inr None \<or> fetchMembers2 w = Inr (Some [])"
      "tally w m vm =
         ([FetchMessage (message_id vm), FetchMembers],
          Throw (Error ''Failed to fetch member count''))"
  | (counted) fetched members where
      "fetchMessage w (message_id vm) = Inr (Some fetched)"
      "fetchMembers2 w = Inr (Some members)"
      "members \<noteq> []"
      "tally w m vm =
         ([FetchMessage (message_id vm), FetchMembers],
          Next (votes fetched YES_MARKER, votes fetched NO_MARKER, length members))"
proof (cases "fetchMessage w (message_id vm)")
  case (Inl e)
  with assms show thesis
    by (intro refetch_rejected [of e])
      (simp_all add: tally_def fetchVoteMessage_def await_def andThen_simps)
next
  case (Inr found)
  show thesis
  proof (cases found)
    case None
    with Inr assms show thesis
      by (intro refetch_empty)
        (simp_all add: tally_def fetchVoteMessage_def await_def andThen_simps)
  next
    case (Some fetched)
    show thesis
    proof (cases "fetchMembers2 w")
      case (Inl e)
      with Inr Some assms show thesis
        by (intro count_rejected [of fetched e])
          (simp_all add: tally_def fetchVoteMessage_def fetchMemberCount_def await_def
            andThen_simps)
    next
      case roster: (Inr answer)
      show thesis
      proof (cases "answer = None \<or> answer = Some []")
        case True
        with Inr Some roster assms show thesis
          by (intro count_missing [of fetched])
            (auto simp add: tally_def fetchVoteMessage_def fetchMemberCount_def await_def
              andThen_simps)
      next
        case False
        then obtain members where "answer = Some members" "members \<noteq> []"
          by (cases answer) auto
        with Inr Some roster assms show thesis
          by (intro counted [of fetched members])
            (simp_all add: tally_def fetchVoteMessage_def fetchMemberCount_def await_def
              andThen_simps)
      qed
    qed
  qed
qed

lemma conclude_runs [case_names failed kicked kick_failed]:
  obtains
    (failed)
      "\<not> votekickPasses y n (requiredVotes c)"
      "conclude w t r y n c =
         ([Reply (VotekickFailed (memberName t) y n (requiredVotes c))],
          Return (delivery w (VotekickFailed (memberName t) y n (requiredVotes c))))"
  | (kicked)
      "votekickPasses y n (requiredVotes c)"
      "kick w (member_id t) = Inr ()"
      "conclude w t r y n c =
         ([Kick (member_id t), Reply (VotekickSuccessful (memberName t) y n r)],
          Return (delivery w (VotekickSuccessful (memberName t) y n r)))"
  | (kick_failed) e where
      "votekickPasses y n (requiredVotes c)"
      "kick w (member_id t) = Inl e"
      "conclude w t r y n c =
         ([Kick (member_id t), LogError ''Failed to kick user after successful votekick:'' e,
           Reply KickFailed],
          Return (delivery w KickFailed))"
proof (cases "votekickPasses y n (requiredVotes c)")
  case False
  then show thesis
    by (intro failed) (simp_all add: conclude_def return_reply_def Let_def)
next
  case True
  show thesis
  proof (cases "kick w (member_id t)")
    case (Inl e)
    with True show thesis
      by (intro kick_failed [of e])
        (simp_all add: conclude_def removal_def return_reply_def andThen_simps)
  next
    case (Inr u)
    with True show thesis
      by (intro kicked)
        (simp_all add: conclude_def removal_def return_reply_def andThen_simps)
  qed
qed


lemma addReactions_runs [case_names reaction_failed notice_failed attached]:
  obtains
    (reaction_failed) e x where
      "promise_all2 (reactNoRejectsFirst w) (react w YES_MARKER) (react w NO_MARKER) = Inl e"
      "msg_reply w ReactionError = Inr x"
      "addReactions w =
         ([React YES_MARKER, React NO_MARKER, LogError ''Failed to add vote reactions:'' e,
           Reply ReactionError], Return Fulfilled)"
  | (notice_failed) e e' where
      "promise_all2 (reactNoRejectsFirst w) (react w YES_MARKER) (react w NO_MARKER) = Inl e"
      "msg_reply w ReactionError = Inl e'"
      "addReactions w =
         ([React YES_MARKER, React NO_MARKER, LogError ''Failed to add vote reactions:'' e,
           Reply ReactionError], Throw e')"
  | (attached)
      "react w YES_MARKER = Inr ()" "react w NO_MARKER = Inr ()"
      "addReactions w = ([React YES_MARKER, React NO_MARKER], Next ())"
proof (cases "promise_all2 (reactNoRejectsFirst w) (react w YES_MARKER) (react w NO_MARKER)")
  case (Inr u)
  then have "react w YES_MARKER = Inr ()" "react w NO_MARKER = Inr ()"
    by (auto simp: promise_all2_def split: sum.splits)
  with Inr show thesis
    by (intro attached) (simp_all add: addReactions_def)
next
  case (Inl e)
  show thesis
  proof (cases "msg_reply w ReactionError")
    case notice: (Inl e')
    with Inl show thesis
      by (intro notice_failed [of e e']) (simp_all add: addReactions_def await_def andThen_simps)
  next
    case notice: (Inr x)
    with Inl show thesis
      by (intro reaction_failed [of e x]) (simp_all add: addReactions_def await_def andThen_simps)
  qed
qed

lemma promise_all2_Inl:
  "(\<exists>e. promise_all2 b x y = Inl e) = ((\<exists>e. x = Inl e) \<or> (\<exists>e. y = Inl e))"
  by (auto simp: promise_all2_def split: sum.splits)

lemma promise_all2_error:
  "promise_all2 b x y = Inl e \<Longrightarrow> x = Inl e \<or> y = Inl e"
  by (auto simp: promise_all2_def split: sum.splits if_splits)

lemma announce_runs [case_names announce_rejected announce_empty announced]:
  obtains
    (announce_rejected) e where
      "msg_reply w (VotekickStarted (memberName t) r (authorName m)) = Inl e"
      "announce w m t r = ([Reply (VotekickStarted (memberName t) r (authorName m))], Throw e)"
  | (announce_empty)
      "msg_reply w (VotekickStarted (memberName t) r (authorName m)) = Inr None"
      "announce w m t r =
         ([Reply (VotekickStarted (memberName t) r (authorName m))],
          Throw (Error ''Failed to create vote message''))"
  | (announced) vm where
      "msg_reply w (VotekickStarted (memberName t) r (authorName m)) = Inr (Some vm)"
      "announce w m t r = ([Reply (VotekickStarted (memberName t) r (authorName m))], Next vm)"
proof (cases "msg_reply w (VotekickStarted (memberName t) r (authorName m))")
  case (Inl e)
  then show thesis
    by (intro announce_rejected [of e]) (simp_all add: announce_def await_def andThen_simps)
next
  case (Inr sent)
  then show thesis
    by (cases sent)
      (auto intro: announce_empty announced simp add: announce_def await_def andThen_simps)
qed


subsection \<open>The runs of the command\<close>

text \<open>
  Every run of \<open>execute\<close> is one of twenty: three before the guarded region, six
  rejections of the eligibility checks, and eleven ways for a poll to end. Each case
  gives the answers of the world that select it and the complete trace.
\<close>

lemma execute_runs [case_names lookup_rejected disabled usage blocklist_rejected blocked
    no_server roster_rejected not_found bot announce_rejected announce_empty reaction_failed
    notice_failed refetch_rejected refetch_empty count_rejected count_missing failed kicked
    kick_failed]:
  obtains
    (lookup_rejected) e where
      "getServerConfig1 w (serverId m) = Inl e"
      "execute w m args = ([GetServerConfig (serverId m)], Rejected e)"
  | (disabled) c where
      "getServerConfig1 w (serverId m) = Inr c" "\<not> moderation c"
      "execute w m args =
         ([GetServerConfig (serverId m), Reply FeatureDisabled], delivery w FeatureDisabled)"
  | (usage) c where
      "getServerConfig1 w (serverId m) = Inr c" "moderation c"
      "args = None \<or> (\<exists>as. args = Some as \<and> length as < 2)"
      "execute w m args =
         ([GetServerConfig (serverId m), Reply InvalidUsage], delivery w InvalidUsage)"
  | (blocklist_rejected) c as e where
      "getServerConfig1 w (serverId m) = Inr c" "moderation c"
      "args = Some as" "2 \<le> length as"
      "getServerConfig2 w (serverId m) = Inl e"
      "execute w m args =
         ([GetServerConfig (serverId m), GetServerConfig (serverId m)] @ caught e,
          delivery w (ErrorOccurred e))"
  | (blocked) c as c2 where
      "getServerConfig1 w (serverId m) = Inr c" "moderation c"
      "args = Some as" "2 \<le> length as"
      "getServerConfig2 w (serverId m) = Inr c2" "authorId m \<in> set (blockedUsers c2)"
      "execute w m args =
         ([GetServerConfig (serverId m), GetServerConfig (serverId m), Reply AccessDenied],
          delivery w AccessDenied)"
  | (no_server) c as c2 where
      "getServerConfig1 w (serverId m) = Inr c" "moderation c"
      "args = Some as" "2 \<le> length as"
      "getServerConfig2 w (serverId m) = Inr c2" "authorId m \<notin> set (blockedUsers c2)"
      "server_of m = None"
      "execute w m args =
         ([GetServerConfig (serverId m), GetServerConfig (serverId m), Reply UserNotFound],
          delivery w UserNotFound)"
  | (roster_rejected) c as c2 s e where
      "getServerConfig1 w (serverId m) = Inr c" "moderation c"
      "args = Some as" "2 \<le> length as"
      "getServerConfig2 w (serverId m) = Inr c2" "authorId m \<notin> set (blockedUsers c2)"
      "server_of m = Some s" "fetchMembers1 w = Inl e"
      "execute w m args =
         ([GetServerConfig (serverId m), GetServerConfig (serverId m), FetchMembers,
           LogError ''Error fetching members:'' e, Reply UserNotFound],
          delivery w UserNotFound)"
  | (not_found) c as c2 s where
      "getServerConfig1 w (serverId m) = Inr c" "moderation c"
      "args = Some as" "2 \<le> length as"
      "getServerConfig2 w (serverId m) = Inr c2" "authorId m \<notin> set (blockedUsers c2)"
      "server_of m = Some s"
      "fetchMembers1 w = Inr None \<or>
       (\<exists>roster. fetchMembers1 w = Inr (Some roster) \<and> find (matches (as ! 0)) roster = None)"
      "execute w m args =
         ([GetServerConfig (serverId m), GetServerConfig (serverId m), FetchMembers,
           Reply UserNotFound],
          delivery w UserNotFound)"
  | (bot) c as c2 s roster t where
      "getServerConfig1 w (serverId m) = Inr c" "moderation c"
      "args = Some as" "2 \<le> length as"
      "getServerConfig2 w (serverId m) = Inr c2" "authorId m \<notin> set (blockedUsers c2)"
      "server_of m = Some s" "fetchMembers1 w = Inr (Some roster)"
      "find (matches (as ! 0)) roster = Some t" "is_bot t"
      "execute w m args =
         ([GetServerConfig (serverId m), GetServerConfig (serverId m), FetchMembers,
           Reply CannotVotekickBot],
          delivery w CannotVotekickBot)"
  | (announce_rejected) c as c2 s roster t e where
      "getServerConfig1 w (serverId m) = Inr c" "moderation c"
      "args = Some as" "2 \<le> length as"
      "getServerConfig2 w (serverId m) = Inr c2" "authorId m \<notin> set (blockedUsers c2)"
      "server_of m = Some s" "fetchMembers1 w = Inr (Some roster)"
      "find (matches (as ! 0)) roster = Some t" "\<not> is_bot t"
      "msg_reply w (announcement m t as) = Inl e"
      "execute w m args = (prelude m t as @ caught e, delivery w (ErrorOccurred e))"
  | (announce_empty) c as c2 s roster t where
      "getServerConfig1 w (serverId m) = Inr c" "moderation c"
      "args = Some as" "2 \<le> length as"
      "getServerConfig2 w (serverId m) = Inr c2" "authorId m \<notin> set (blockedUsers c2)"
      "server_of m = Some s" "fetchMembers1 w = Inr (Some roster)"
      "find (matches (as ! 0)) roster = Some t" "\<not> is_bot t"
      "msg_reply w (announcement m t as) = Inr None"
      "execute w m args =
         (prelude m t as @ caught (Error ''Failed to create vote message''),
          delivery w (ErrorOccurred (Error ''Failed to create vote message'')))"
  | (reaction_failed) c as c2 s roster t vm e x where
      "getServerConfig1 w (serverId m) = Inr c" "moderation c"
      "args = Some as" "2 \<le> length as"
      "getServerConfig2 w (serverId m) = Inr c2" "authorId m \<notin> set (blockedUsers c2)"
      "server_of m = Some s" "fetchMembers1 w = Inr (Some roster)"
      "find (matches (as ! 0)) roster = Some t" "\<not> is_bot t"
      "msg_reply w (announcement m t as) = Inr (Some vm)"
      "promise_all2 (reactNoRejectsFirst w) (react w YES_MARKER) (react w NO_MARKER) = Inl e"
      "msg_reply w ReactionError = Inr x"
      "execute w m args =
         (prelude m t as @ markers
            @ [LogError ''Failed to add vote reactions:'' e, Reply ReactionError],
          Fulfilled)"
  | (notice_failed) c as c2 s roster t vm e e' where
      "getServerConfig1 w (serverId m) = Inr c" "moderation c"
      "args = Some as" "2 \<le> length as"
      "getServerConfig2 w (serverId m) = Inr c2" "authorId m \<notin> set (blockedUsers c2)"
      "server_of m = Some s" "fetchMembers1 w = Inr (Some roster)"
      "find (matches (as ! 0)) roster = Some t" "\<not> is_bot t"
      "msg_reply w (announcement m t as) = Inr (Some vm)"
      "promise_all2 (reactNoRejectsFirst w) (react w YES_MARKER) (react w NO_MARKER) = Inl e"
      "msg_reply w ReactionError = Inl e'"
      "execute w m args =
         (prelude m t as @ markers
            @ [LogError ''Failed to add vote reactions:'' e, Reply ReactionError] @ caught e',
          delivery w (ErrorOccurred e'))"
  | (refetch_rejected) c as c2 s roster t vm e where
      "getServerConfig1 w (serverId m) = Inr c" "moderation c"
      "args = Some as" "2 \<le> length as"
      "getServerConfig2 w (serverId m) = Inr c2" "authorId m \<notin> set (blockedUsers c2)"
      "server_of m = Some s" "fetchMembers1 w = Inr (Some roster)"
      "find (matches (as ! 0)) roster = Some t" "\<not> is_bot t"
      "msg_reply w (announcement m t as) = Inr (Some vm)"
      "react w YES_MARKER = Inr ()" "react w NO_MARKER = Inr ()"
      "fetchMessage w (message_id vm) = Inl e"
      "execute w m args =
         (prelude m t as @ markers @ timers @ [FetchMessage (message_id vm)] @ caught e,
          delivery w (ErrorOccurred e))"
  | (refetch_empty) c as c2 s roster t vm where
      "getServerConfig1 w (serverId m) = Inr c" "moderation c"
      "args = Some as" "2 \<le> length as"
      "getServerConfig2 w (serverId m) = Inr c2" "authorId m \<notin> set (blockedUsers c2)"
      "server_of m = Some s" "fetchMembers1 w = Inr (Some roster)"
      "find (matches (as ! 0)) roster = Some t" "\<not> is_bot t"
      "msg_reply w (announcement m t as) = Inr (Some vm)"
      "react w YES_MARKER = Inr ()" "react w NO_MARKER = Inr ()"
      "fetchMessage w (message_id vm) = Inr None"
      "execute w m args =
         (prelude m t as @ markers @ timers @ [FetchMessage (message_id vm)]
            @ caught (Error ''Could not fetch vote message''),
          delivery w (ErrorOccurred (Error ''Could not fetch vote message'')))"
  | (count_rejected) c as c2 s roster t vm fetched e where
      "getServerConfig1 w (serverId m) = Inr c" "moderation c"
      "args = Some as" "2 \<le> length as"
      "getServerConfig2 w (serverId m) = Inr c2" "authorId m \<notin> set (blockedUsers c2)"
      "server_of m = Some s" "fetchMembers1 w = Inr (Some roster)"
      "find (matches (as ! 0)) roster = Some t" "\<not> is_bot t"
      "msg_reply w (announcement m t as) = Inr (Some vm)"
      "react w YES_MARKER = Inr ()" "react w NO_MARKER = Inr ()"
      "fetchMessage w (message_id vm) = Inr (Some fetched)"
      "fetchMembers2 w = Inl e"
      "execute w m args =
         (prelude m t as @ markers @ timers @ [FetchMessage (message_id vm), FetchMembers]
            @ caught e,
          delivery w (ErrorOccurred e))"
  | (count_missing) c as c2 s roster t vm fetched where
      "getServerConfig1 w (serverId m) = Inr c" "moderation c"
      "args = Some as" "2 \<le> length as"
      "getServerConfig2 w (serverId m) = Inr c2" "authorId m \<notin> set (blockedUsers c2)"
      "server_of m = Some s" "fetchMembers1 w = Inr (Some roster)"
      "find (matches (as ! 0)) roster = Some t" "\<not> is_bot t"
      "msg_reply w (announcement m t as) = Inr (Some vm)"
      "react w YES_MARKER = Inr ()" "react w NO_MARKER = Inr ()"
      "fetchMessage w (message_id vm) = Inr (Some fetched)"
      "fetchMembers2 w = Inr None \<or> fetchMembers2 w = Inr (Some [])"
      "execute w m args =
         (prelude m t as @ markers @ timers @ [FetchMessage (message_id vm), FetchMembers]
            @ caught (Error ''Failed to fetch member count''),
          delivery w (ErrorOccurred (Error ''Failed to fetch member count'')))"
  | (failed) c as c2 s roster t vm fetched members where
      "getServerConfig1 w (serverId m) = Inr c" "moderation c"
      "args = Some as" "2 \<le> length as"
      "getServerConfig2 w (serverId m) = Inr c2" "authorId m \<notin> set (blockedUsers c2)"
      "server_of m = Some s" "fetchMembers1 w = Inr (Some roster)"
      "find (matches (as ! 0)) roster = Some t" "\<not> is_bot t"
      "msg_reply w (announcement m t as) = Inr (Some vm)"
      "react w YES_MARKER = Inr ()" "react w NO_MARKER = Inr ()"
      "fetchMessage w (message_id vm) = Inr (Some fetched)"
      "fetchMembers2 w = Inr (Some members)" "members \<noteq> []"
      "\<not> votekickPasses (votes fetched YES_MARKER) (votes fetched NO_MARKER)
           (requiredVotes (length members))"
      "execute w m args =
         (prelude m t as @ markers @ timers @ [FetchMessage (message_id vm), FetchMembers]
            @ [Reply (VotekickFailed (memberName t) (votes fetched YES_MARKER)
                 (votes fetched NO_MARKER) (requiredVotes (length members)))],
          delivery w (VotekickFailed (memberName t) (votes fetched YES_MARKER)
            (votes fetched NO_MARKER) (requiredVotes (length members))))"
  | (kicked) c as c2 s roster t vm fetched members where
      "getServerConfig1 w (serverId m) = Inr c" "moderation c"
      "args = Some as" "2 \<le> length as"
      "getServerConfig2 w (serverId m) = Inr c2" "authorId m \<notin> set (blockedUsers c2)"
      "server_of m = Some s" "fetchMembers1 w = Inr (Some roster)"
      "find (matches (as ! 0)) roster = Some t" "\<not> is_bot t"
      "msg_reply w (announcement m t as) = Inr (Some vm)"
      "react w YES_MARKER = Inr ()" "react w NO_MARKER = Inr ()"
      "fetchMessage w (message_id vm) = Inr (Some fetched)"
      "fetchMembers2 w = Inr (Some members)" "members \<noteq> []"
      "votekickPasses (votes fetched YES_MARKER) (votes fetched NO_MARKER)
         (requiredVotes (length members))"
      "kick w (member_id t) = Inr ()"
      "execute w m args =
         (prelude m t as @ markers @ timers @ [FetchMessage (message_id vm), FetchMembers]
            @ [Kick (member_id t),
               Reply (VotekickSuccessful (memberName t) (votes fetched YES_MARKER)
                 (votes fetched NO_MARKER) (reason_of as))],
          delivery w (VotekickSuccessful (memberName t) (votes fetched YES_MARKER)
            (votes fetched NO_MARKER) (reason_of as)))"
  | (kick_failed) c as c2 s roster t vm fetched members e where
      "getServerConfig1 w (serverId m) = Inr c" "moderation c"
      "args = Some as" "2 \<le> length as"
      "getServerConfig2 w (serverId m) = Inr c2" "authorId m \<notin> set (blockedUsers c2)"
      "server_of m = Some s" "fetchMembers1 w = Inr (Some roster)"
      "find (matches (as ! 0)) roster = Some t" "\<not> is_bot t"
      "msg_reply w (announcement m t as) = Inr (Some vm)"
      "react w YES_MARKER = Inr ()" "react w NO_MARKER = Inr ()"
      "fetchMessage w (message_id vm) = Inr (Some fetched)"
      "fetchMembers2 w = Inr (Some members)" "members \<noteq> []"
      "votekickPasses (votes fetched YES_MARKER) (votes fetched NO_MARKER)
         (requiredVotes (length members))"
      "kick w (member_id t) = Inl e"
      "execute w m args =
         (prelude m t as @ markers @ timers @ [FetchMessage (message_id vm), FetchMembers]
            @ [Kick (member_id t),
               LogError ''Failed to kick user after successful votekick:'' e,
               Reply KickFailed],
          delivery w KickFailed)"
proof -
  note rules = that
  note top = execute_def await_def andThen_simps settle_def return_reply_def catch_all_def
    tryBody_def poll_def timeoutRace_resolves VOTE_DURATION_def
  show thesis
  proof (cases "getServerConfig1 w (serverId m)")
    case (Inl e)
    then show thesis
      by (intro rules(1) [of e]) (simp_all add: top)
  next
    case (Inr c)
    show thesis
    proof (cases "moderation c")
      case False
      with Inr show thesis
        by (intro rules(2) [of c]) (simp_all add: top)
    next
      case True
      show thesis
      proof (cases "args = None \<or> (\<exists>as. args = Some as \<and> length as < 2)")
        case short: True
        with Inr True show thesis
          by (intro rules(3) [of c]) (auto simp add: top)
      next
        case False
        then obtain as where as: "args = Some as" "2 \<le> length as"
          by (cases args) auto
        note entered = Inr True as
        show thesis
        proof (cases rule: eligibility_runs [of w m as])
          case (blocklist_rejected e)
          with entered show thesis
            by (intro rules(4) [of c as e]) (simp_all add: top)
        next
          case (blocked c2)
          with entered show thesis
            by (intro rules(5) [of c as c2]) (simp_all add: top)
        next
          case (no_server c2)
          with entered show thesis
            by (intro rules(6) [of c as c2]) (simp_all add: top)
        next
          case (roster_rejected c2 s e)
          with entered show thesis
            by (intro rules(7) [of c as c2 s e]) (simp_all add: top)
        next
          case (not_found c2 s)
          with entered show thesis
            by (intro rules(8) [of c as c2 s]) (simp_all add: top)
        next
          case (bot c2 s roster t)
          with entered show thesis
            by (intro rules(9) [of c as c2 s roster t]) (simp_all add: top)
        next
          case (admitted c2 s roster t)
          note admitted = entered admitted
          from admitted(7) obtain ch where ch: "msg_channel m = Some ch"
            by (auto simp: server_of_def split: option.splits)
          show thesis
          proof (cases rule: announce_runs [of w t "reason_of as" m])
            case (announce_rejected e)
            with admitted show thesis
              by (intro rules(10) [of c as c2 s roster t e]) (simp_all add: top)
          next
            case announce_empty
            with admitted show thesis
              by (intro rules(11) [of c as c2 s roster t]) (simp_all add: top)
          next
            case (announced vm)
            note announced = admitted announced
            show thesis
            proof (cases rule: addReactions_runs [of w])
              case (reaction_failed e x)
              with announced show thesis
                by (intro rules(12) [of c as c2 s roster t vm e x]) (simp_all add: top)
            next
              case (notice_failed e e')
              with announced show thesis
                by (intro rules(13) [of c as c2 s roster t vm e e']) (simp_all add: top)
            next
              case attached
              note attached = announced attached
              from ch admitted(7) show thesis
              proof (cases rule: tally_runs [where w = w and vm = vm])
                case (refetch_rejected e)
                with attached show thesis
                  by (intro rules(14) [of c as c2 s roster t vm e]) (simp_all add: top)
              next
                case refetch_empty
                with attached show thesis
                  by (intro rules(15) [of c as c2 s roster t vm]) (simp_all add: top)
              next
                case (count_rejected fetched e)
                with attached show thesis
                  by (intro rules(16) [of c as c2 s roster t vm fetched e]) (simp_all add: top)
              next
                case (count_missing fetched)
                with attached show thesis
                  by (intro rules(17) [of c as c2 s roster t vm fetched]) (simp_all add: top)
              next
                case (counted fetched members)
                note counted = attached counted
                show thesis
                proof (cases rule: conclude_runs
                    [of "votes fetched YES_MARKER" "votes fetched NO_MARKER" "length members"
                      w t "reason_of as"])
                  case failed
                  with counted show thesis
                    by (intro rules(18) [of c as c2 s roster t vm fetched members])
                      (simp_all add: top)
                next
                  case kicked
                  with counted show thesis
                    by (intro rules(19) [of c as c2 s roster t vm fetched members])
                      (simp_all add: top)
                next
                  case (kick_failed e)
                  with counted show thesis
                    by (intro rules(20) [of c as c2 s roster t vm fetched members e])
                      (simp_all add: top)
                qed
              qed
            qed
          qed
        qed
      qed
    qed
  qed
qed

subsection \<open>The quorum decision\<close>

text \<open>
  C1. For every yes-count, no-count and roster size, the decision at lines 145 to 148
  takes the removal branch (the vote passed) exactly when \<open>yes > no\<close> and
  \<open>yes \<ge> ceil(rosterSize * 0.5)\<close>, and otherwise answers with the ``Votekick Failed''
  reply; the threshold is met exactly when twice the yes-count reaches the roster size;
  a tie is answered with ``Votekick Failed'' for every roster size.
\<close>

theorem quorum_decision:
  "conclude w t reason yes no rosterSize =
     (if yes > no \<and> int yes \<ge> \<lceil>real rosterSize * 0.5\<rceil>
      then removal w t reason yes no
      else return_reply w (VotekickFailed (memberName t) yes no \<lceil>real rosterSize * 0.5\<rceil>))
   \<and> (int yes \<ge> \<lceil>real rosterSize * 0.5\<rceil>) = (rosterSize \<le> 2 * yes)
   \<and> votekickPasses yes no (requiredVotes rosterSize) = (yes > no \<and> rosterSize \<le> 2 * yes)
   \<and> conclude w t reason yes yes rosterSize =
       return_reply w (VotekickFailed (memberName t) yes yes (requiredVotes rosterSize))"
proof -
  have r: "\<lceil>real rosterSize * 0.5\<rceil> = requiredVotes rosterSize"
    by (simp add: requiredVotes_def REQUIRED_VOTES_PERCENTAGE_def)
  show ?thesis
    unfolding r by (simp add: conclude_def votekickPasses_def required_le_iff)
qed

text \<open>The boundary cases at a roster of ten: a tie fails, five to one passes, four to none fails.\<close>

theorem quorum_decision_witness:
  "conclude scenario_A alice ''r'' 5 5 10 =
     ([Reply (VotekickFailed (Some ''Alice'') 5 5 5)], Return Fulfilled)
   \<and> conclude scenario_A alice ''r'' 5 1 10 =
       ([Kick ''u-alice'', Reply (VotekickSuccessful (Some ''Alice'') 5 1 ''r'')], Return Fulfilled)
   \<and> conclude scenario_A alice ''r'' 4 0 10 =
       ([Reply (VotekickFailed (Some ''Alice'') 4 0 5)], Return Fulfilled)"
  using quorum_decision [of scenario_A alice "''r''" 5 5 10]
    quorum_decision [of scenario_A alice "''r''" 5 1 10]
    quorum_decision [of scenario_A alice "''r''" 4 0 10]
  by (simp add: removal_def delivery_def flow_defs scenario_defs)

subsection \<open>Scenario A\<close>

text \<open>Twelve members, seven yes and two no: the vote passes and Alice is removed once.\<close>

lemma scenario_A_run:
  "execute scenario_A the_msg (Some the_args) =
     (prelude the_msg alice the_args @ markers @ timers
        @ [FetchMessage ''vote-1'', FetchMembers, Kick ''u-alice'',
           Reply (VotekickSuccessful (Some ''Alice'') 7 2 ''spamming links'')],
      Fulfilled)"
  by (simp add: flow_defs delivery_def stage_defs quorum_defs string_defs scenario_defs)

subsection \<open>The removal\<close>

text \<open>
  C3. In every run the removal is invoked at most once. When it is invoked, the run has
  re-fetched the announcement and the roster immediately before, and the quorum decision
  on the counts read there is a pass. If the removal succeeds, the run ends with the
  ``Votekick Successful'' reply carrying the yes and no counts; if it fails, the failure is
  logged and the run ends with the separate reply ``Votekick passed but failed to kick
  user'', which differs from the ``Votekick Failed'' reply; nothing follows, so the removal
  is not retried.
\<close>

theorem removal_once:
  "length (filter is_kick (fst (execute w m args))) \<le> 1
   \<and> (Kick k \<in> set (fst (execute w m args)) \<longrightarrow>
        (\<exists>as t (vm::message) fetched members.
           args = Some as \<and> k = member_id t
           \<and> fetchMessage w (message_id vm) = Inr (Some fetched)
           \<and> fetchMembers2 w = Inr (Some members)
           \<and> votekickPasses (votes fetched YES_MARKER) (votes fetched NO_MARKER)
                (requiredVotes (length members))
           \<and> fst (execute w m args) =
               prelude m t as @ markers @ timers
                 @ [FetchMessage (message_id vm), FetchMembers, Kick k]
                 @ (case kick w k of
                      Inr _ \<Rightarrow>
                        [Reply (VotekickSuccessful (memberName t) (votes fetched YES_MARKER)
                           (votes fetched NO_MARKER) (reason_of as))]
                    | Inl e \<Rightarrow>
                        [LogError ''Failed to kick user after successful votekick:'' e,
                         Reply KickFailed])))
   \<and> render KickFailed \<noteq> render (VotekickFailed who yes no required)"
proof -
  let ?run = "fst (execute w m args)"
  let ?passed = "\<lambda>k. \<exists>as t (vm::message) fetched members.
           args = Some as \<and> k = member_id t
           \<and> fetchMessage w (message_id vm) = Inr (Some fetched)
           \<and> fetchMembers2 w = Inr (Some members)
           \<and> votekickPasses (votes fetched YES_MARKER) (votes fetched NO_MARKER)
                (requiredVotes (length members))
           \<and> ?run =
               prelude m t as @ markers @ timers
                 @ [FetchMessage (message_id vm), FetchMembers, Kick k]
                 @ (case kick w k of
                      Inr _ \<Rightarrow>
                        [Reply (VotekickSuccessful (memberName t) (votes fetched YES_MARKER)
                           (votes fetched NO_MARKER) (reason_of as))]
                    | Inl e \<Rightarrow>
                        [LogError ''Failed to kick user after successful votekick:'' e,
                         Reply KickFailed])"
  have distinct: "render KickFailed \<noteq> render (VotekickFailed who yes no required)"
    by simp
  have once: "length (filter is_kick ?run) \<le> 1"
    by (cases rule: execute_runs [of w m args]) simp_all
  have after: "?passed k" if "Kick k \<in> set ?run"
  proof (cases rule: execute_runs [of w m args])
    case (kicked c as c2 s roster t vm fetched members)
    with that have k: "k = member_id t" by simp
    from kicked show ?thesis
      unfolding k
      by (intro exI [of _ as] exI [of _ t] exI [of _ vm] exI [of _ fetched]
        exI [of _ members]) simp
  next
    case (kick_failed c as c2 s roster t vm fetched members e)
    with that have k: "k = member_id t" by simp
    from kick_failed show ?thesis
      unfolding k
      by (intro exI [of _ as] exI [of _ t] exI [of _ vm] exI [of _ fetched]
        exI [of _ members]) simp
  qed (use that in simp_all)
  from once after distinct show ?thesis by blast
qed

theorem removal_once_witness:
  "Kick ''u-alice'' \<in> set (fst (execute scenario_A the_msg (Some the_args)))
   \<and> length (filter is_kick (fst (execute scenario_A the_msg (Some the_args)))) \<le> 1
   \<and> (\<exists>as t (vm::message) fetched members.
         Some the_args = Some as \<and> ''u-alice'' = member_id t
         \<and> fetchMessage scenario_A (message_id vm) = Inr (Some fetched)
         \<and> fetchMembers2 scenario_A = Inr (Some members)
         \<and> votekickPasses (votes fetched YES_MARKER) (votes fetched NO_MARKER)
              (requiredVotes (length members))
         \<and> fst (execute scenario_A the_msg (Some the_args)) =
             prelude the_msg t as @ markers @ timers
               @ [FetchMessage (message_id vm), FetchMembers, Kick ''u-alice'']
               @ (case kick scenario_A ''u-alice'' of
                    Inr _ \<Rightarrow>
                      [Reply (VotekickSuccessful (memberName t) (votes fetched YES_MARKER)
                         (votes fetched NO_MARKER) (reason_of as))]
                  | Inl e \<Rightarrow>
                      [LogError ''Failed to kick user after successful votekick:'' e,
                       Reply KickFailed]))"
proof -
  have reached: "Kick ''u-alice'' \<in> set (fst (execute scenario_A the_msg (Some the_args)))"
    by (simp add: scenario_A_run)
  with removal_once [of scenario_A the_msg "Some the_args" "''u-alice''"]
  show ?thesis by blast
qed

subsection \<open>A roster count that is missing or zero\<close>

lemma no_decision_without_count:
  assumes "fetchMembers2 w = Inr None \<or> fetchMembers2 w = Inr (Some [])"
  shows "filter is_kick (fst (execute w m args)) = []"
    and "filter is_decision_reply (fst (execute w m args)) = []"
  using assms by (cases rule: execute_runs [of w m args]; auto)+

lemma fetchMemberCount_missing:
  assumes "fetchMembers2 w = Inr None \<or> fetchMembers2 w = Inr (Some [])"
  shows "snd (fetchMemberCount w m) = Throw (Error ''Failed to fetch member count'')"
  using assms
  by (auto simp: fetchMemberCount_def await_def andThen_simps split: option.splits)

lemma tally_missing:
  assumes "fetchMembers2 w = Inr None \<or> fetchMembers2 w = Inr (Some [])"
  shows "\<exists>e. snd (tally w m vm) = Throw e"
  using fetchMemberCount_missing [OF assms, of m]
  by (auto simp: tally_def snd_andThen fetchVoteMessage_def await_def Let_def
      split: flow.splits option.splits sum.splits)

lemma tally_positive: "tally w m vm = (tr, Next (y, n, count)) \<Longrightarrow> 1 \<le> count"
  by (auto simp: tally_def fetchVoteMessage_def fetchMemberCount_def await_def andThen_def
      Let_def Suc_le_eq
      split: flow.splits option.splits sum.splits if_splits prod.splits)

lemma count_missing_run:
  assumes "fetchMembers2 w = Inr None \<or> fetchMembers2 w = Inr (Some [])"
    and "FetchMessage i \<in> set (fst (execute w m args))"
    and "fetchMessage w i = Inr (Some fetched)"
  shows "\<exists>as t. args = Some as \<and> execute w m args =
           (prelude m t as @ markers @ timers @ [FetchMessage i, FetchMembers]
              @ caught (Error ''Failed to fetch member count''),
            delivery w (ErrorOccurred (Error ''Failed to fetch member count'')))"
  using assms by (cases rule: execute_runs [of w m args]) auto

lemma empty_roster_run:
  "execute (empty_roster fetched) the_msg (Some the_args) =
     (prelude the_msg alice the_args @ markers @ timers
        @ [FetchMessage ''vote-1'', FetchMembers]
        @ caught (Error ''Failed to fetch member count''),
      Fulfilled)"
  by (simp add: flow_defs delivery_def stage_defs string_defs scenario_defs)

text \<open>
  C10. Whenever the roster fetch at tally time yields no value or an empty roster, the
  member-count step throws \<open>Failed to fetch member count\<close>; no run contains the removal or
  any of the three replies that report a quorum decision; and a run that got as far as
  re-fetching the announcement ends in the top-level handler with that cause. An empty
  roster and a missing one take the same path.
\<close>

theorem missing_count_raises:
  "fetchMembers2 w = Inr None \<or> fetchMembers2 w = Inr (Some []) \<Longrightarrow>
     snd (fetchMemberCount w m) = Throw (Error ''Failed to fetch member count'')
   \<and> filter is_kick (fst (execute w m args)) = []
   \<and> filter is_decision_reply (fst (execute w m args)) = []
   \<and> (FetchMessage i \<in> set (fst (execute w m args)) \<and> fetchMessage w i = Inr (Some fetched)
        \<longrightarrow> (\<exists>as t. args = Some as \<and> execute w m args =
              (prelude m t as @ markers @ timers @ [FetchMessage i, FetchMembers]
                 @ caught (Error ''Failed to fetch member count''),
               delivery w (ErrorOccurred (Error ''Failed to fetch member count'')))))"
  using fetchMemberCount_missing [of w m] no_decision_without_count [of w m args]
    count_missing_run [of w i m args fetched]
  by blast

theorem missing_count_raises_witness:
  "fetchMembers2 (empty_roster seven_two) = Inr (Some [])
   \<and> FetchMessage ''vote-1'' \<in> set (fst (execute (empty_roster seven_two) the_msg (Some the_args)))
   \<and> fetchMessage (empty_roster seven_two) ''vote-1'' = Inr (Some seven_two)
   \<and> snd (fetchMemberCount (empty_roster seven_two) the_msg) =
       Throw (Error ''Failed to fetch member count'')
   \<and> filter is_kick (fst (execute (empty_roster seven_two) the_msg (Some the_args))) = []
   \<and> filter is_decision_reply (fst (execute (empty_roster seven_two) the_msg (Some the_args)))
       = []
   \<and> (\<exists>as t. Some the_args = Some as \<and>
         execute (empty_roster seven_two) the_msg (Some the_args) =
           (prelude the_msg t as @ markers @ timers @ [FetchMessage ''vote-1'', FetchMembers]
              @ caught (Error ''Failed to fetch member count''),
            delivery (empty_roster seven_two)
              (ErrorOccurred (Error ''Failed to fetch member count''))))"
proof -
  have roster: "fetchMembers2 (empty_roster seven_two) = Inr (Some [])"
    by (simp add: empty_roster_def)
  have reached:
    "FetchMessage ''vote-1'' \<in> set (fst (execute (empty_roster seven_two) the_msg (Some the_args)))"
    by (simp add: empty_roster_run)
  have fetched: "fetchMessage (empty_roster seven_two) ''vote-1'' = Inr (Some seven_two)"
    by (simp add: empty_roster_def)
  from roster reached fetched
    missing_count_raises [of "empty_roster seven_two" the_msg "Some the_args" "''vote-1''"
      seven_two]
  show ?thesis by blast
qed

text \<open>
  C2, as the code has it. With one yes vote and no no vote and a roster of size 0 the run
  does not pass: it ends in the top-level handler with the cause
  \<open>Failed to fetch member count\<close>, and Alice is not removed.
\<close>

theorem empty_roster_counterexample:
  "votes (ballot [''v1''] []) YES_MARKER = 1 \<and> votes (ballot [''v1''] []) NO_MARKER = 0
   \<and> fetchMembers2 (empty_roster (ballot [''v1''] [])) = Inr (Some [])
   \<and> execute (empty_roster (ballot [''v1''] [])) the_msg (Some the_args) =
       (prelude the_msg alice the_args @ markers @ timers
          @ [FetchMessage ''vote-1'', FetchMembers]
          @ caught (Error ''Failed to fetch member count''),
        Fulfilled)"
  by (simp add: empty_roster_run) (simp add: votes_def string_defs scenario_defs)

lemma tally_missing_cause:
  assumes "fetchMembers2 w = Inr None \<or> fetchMembers2 w = Inr (Some [])"
    and "msg_channel m = Some ch" and "fetchMessage w (message_id vm) = Inr (Some fetched)"
  shows "snd (tally w m vm) = Throw (Error ''Failed to fetch member count'')"
  using assms(2,3) fetchMemberCount_missing [OF assms(1), of m]
  by (simp add: tally_def fetchVoteMessage_def await_def andThen_simps snd_andThen)

text \<open>
  C2, amended. When the roster sampled at tally time has size 0, the poll does not reach
  the quorum decision. A size-0 roster is handled like a failed fetch: once the
  announcement has been re-fetched, the tally throws \<open>Failed to fetch member count\<close>
  whatever the votes are, and the run ends in the generic error with that cause. No run
  reports a decision or removes the target. The decision is only ever evaluated on a
  roster of at least one member. Taken on its own, the quorum expression at roster size 0
  requires 0 votes, accepts one yes against no no, and rejects no votes at all.
\<close>

theorem empty_roster_no_decision:
  "(fetchMembers2 w = Inr (Some []) \<longrightarrow>
      (\<exists>e. snd (tally w m vm) = Throw e)
    \<and> filter is_decision_reply (fst (execute w m args)) = []
    \<and> filter is_kick (fst (execute w m args)) = []
    \<and> (msg_channel m = Some ch \<and> fetchMessage w (message_id vm) = Inr (Some fetched) \<longrightarrow>
         snd (tally w m vm) = Throw (Error ''Failed to fetch member count''))
    \<and> (FetchMessage i \<in> set (fst (execute w m args)) \<and> fetchMessage w i = Inr (Some fetched)
         \<longrightarrow> (\<exists>as t. args = Some as \<and> execute w m args =
               (prelude m t as @ markers @ timers @ [FetchMessage i, FetchMembers]
                  @ caught (Error ''Failed to fetch member count''),
                delivery w (ErrorOccurred (Error ''Failed to fetch member count''))))))
   \<and> (tally w m vm = (tr, Next (yes, no, rosterSize)) \<longrightarrow> 1 \<le> rosterSize)
   \<and> requiredVotes 0 = 0
   \<and> votekickPasses 1 0 (requiredVotes 0)
   \<and> \<not> votekickPasses 0 0 (requiredVotes 0)"
proof -
  have decision: "requiredVotes 0 = 0" "votekickPasses 1 0 (requiredVotes 0)"
    "\<not> votekickPasses 0 0 (requiredVotes 0)"
    by (simp_all add: quorum_defs)
  from decision tally_missing [of w m vm] no_decision_without_count [of w m args]
    tally_missing_cause [of w m ch vm fetched] count_missing_run [of w i m args fetched]
    tally_positive [of w m vm tr yes no rosterSize]
  show ?thesis by blast
qed

text \<open>
  One yes vote and no no vote, and then no vote at all, on a roster of size 0: both runs
  end in the generic error; on the roster of twelve the tally hands on its counts.
\<close>

theorem empty_roster_no_decision_witness:
  "fetchMembers2 (empty_roster (ballot [''v1''] [])) = Inr (Some [])
   \<and> msg_channel the_msg = Some home
   \<and> fetchMessage (empty_roster (ballot [''v1''] [])) (message_id posted) =
       Inr (Some (ballot [''v1''] []))
   \<and> FetchMessage ''vote-1''
       \<in> set (fst (execute (empty_roster (ballot [''v1''] [])) the_msg (Some the_args)))
   \<and> snd (tally (empty_roster (ballot [''v1''] [])) the_msg posted) =
       Throw (Error ''Failed to fetch member count'')
   \<and> filter is_decision_reply
        (fst (execute (empty_roster (ballot [''v1''] [])) the_msg (Some the_args))) = []
   \<and> filter is_kick
        (fst (execute (empty_roster (ballot [''v1''] [])) the_msg (Some the_args))) = []
   \<and> (\<exists>as t. Some the_args = Some as \<and>
         execute (empty_roster (ballot [''v1''] [])) the_msg (Some the_args) =
           (prelude the_msg t as @ markers @ timers @ [FetchMessage ''vote-1'', FetchMembers]
              @ caught (Error ''Failed to fetch member count''),
            delivery (empty_roster (ballot [''v1''] []))
              (ErrorOccurred (Error ''Failed to fetch member count''))))
   \<and> fetchMembers2 (empty_roster (ballot [] [])) = Inr (Some [])
   \<and> fetchMessage (empty_roster (ballot [] [])) ''vote-1'' = Inr (Some (ballot [] []))
   \<and> FetchMessage ''vote-1''
       \<in> set (fst (execute (empty_roster (ballot [] [])) the_msg (Some the_args)))
   \<and> (\<exists>as t. Some the_args = Some as \<and>
         execute (empty_roster (ballot [] [])) the_msg (Some the_args) =
           (prelude the_msg t as @ markers @ timers @ [FetchMessage ''vote-1'', FetchMembers]
              @ caught (Error ''Failed to fetch member count''),
            delivery (empty_roster (ballot [] []))
              (ErrorOccurred (Error ''Failed to fetch member count''))))
   \<and> tally scenario_A the_msg posted =
       ([FetchMessage ''vote-1'', FetchMembers], Next (7, 2, 12))
   \<and> (1::nat) \<le> 12"
proof -
  have empty: "fetchMembers2 (empty_roster fetched) = Inr (Some [])"
    and refetched: "fetchMessage (empty_roster fetched) ''vote-1'' = Inr (Some fetched)"
    and posted: "message_id posted = ''vote-1''"
    and channel: "msg_channel the_msg = Some home"
    for fetched
    by (simp_all add: empty_roster_def posted_def the_msg_def)
  have reached:
    "FetchMessage ''vote-1'' \<in> set (fst (execute (empty_roster fetched) the_msg (Some the_args)))"
    for fetched
    by (simp add: empty_roster_run)
  have counted: "tally scenario_A the_msg posted =
       ([FetchMessage ''vote-1'', FetchMembers], Next (7, 2, 12))"
    by (simp add: flow_defs stage_defs string_defs scenario_defs)
  note one = empty_roster_no_decision
    [where w = "empty_roster (ballot [''v1''] [])" and m = the_msg and vm = posted
      and args = "Some the_args" and ch = home and fetched = "ballot [''v1''] []"
      and i = "''vote-1''" and tr = "[FetchMessage ''vote-1'', FetchMembers]"
      and yes = 7 and no = 2 and rosterSize = 12]
  note none = empty_roster_no_decision
    [where w = "empty_roster (ballot [] [])" and m = the_msg and vm = posted
      and args = "Some the_args" and ch = home and fetched = "ballot [] []"
      and i = "''vote-1''" and tr = "[FetchMessage ''vote-1'', FetchMembers]"
      and yes = 7 and no = 2 and rosterSize = 12]
  note twelve = empty_roster_no_decision
    [where w = scenario_A and m = the_msg and vm = posted
      and args = "Some the_args" and ch = home and fetched = "ballot [] []"
      and i = "''vote-1''" and tr = "[FetchMessage ''vote-1'', FetchMembers]"
      and yes = 7 and no = 2 and rosterSize = 12]
  from empty [of "ballot [''v1''] []"] empty [of "ballot [] []"]
    refetched [of "ballot [''v1''] []"] refetched [of "ballot [] []"]
    reached [of "ballot [''v1''] []"] reached [of "ballot [] []"]
    posted channel counted one none twelve
  show ?thesis by simp
qed

subsection \<open>The top-level handler\<close>

lemma guarded_run:
  assumes "getServerConfig1 w (serverId m) = Inr c" "moderation c" "2 \<le> length as"
    and "tryBody w m as = (tr, Throw e)"
  shows "execute w m (Some as) =
           (GetServerConfig (serverId m) # tr @ caught e, delivery w (ErrorOccurred e))"
  using assms
  by (simp add: execute_def await_def andThen_simps catch_all_def settle_def return_reply_def)

lemma top_level_once:
  "length (filter is_top_level_log (fst (execute w m args))) \<le> 1"
  "length (filter is_generic_reply (fst (execute w m args))) \<le> 1"
  by (cases rule: execute_runs [of w m args]; simp)+

lemma lookup_propagates:
  "getServerConfig1 w (serverId m) = Inl e \<Longrightarrow>
     execute w m args = ([GetServerConfig (serverId m)], Rejected e)"
  by (simp add: execute_def await_def andThen_simps settle_def)

lemma guarded_logged_once:
  assumes "getServerConfig1 w (serverId m) = Inr c" "moderation c" "2 \<le> length as"
    and "tryBody w m as = (tr, Throw e)"
  shows "filter is_top_level_log (fst (execute w m (Some as))) =
           [LogError ''Error in votekick command:'' e]"
    and "filter is_generic_reply (fst (execute w m (Some as))) = [Reply (ErrorOccurred e)]"
proof -
  note run = guarded_run [OF assms]
  let ?log = "filter is_top_level_log"
  let ?gen = "filter is_generic_reply"
  have "length (?log (GetServerConfig (serverId m) # tr @ caught e)) \<le> 1"
    using top_level_once(1) [of w m "Some as"] by (simp add: run)
  then have "?log tr = []" by simp
  then show "?log (fst (execute w m (Some as))) = [LogError ''Error in votekick command:'' e]"
    by (simp add: run)
  have "length (?gen (GetServerConfig (serverId m) # tr @ caught e)) \<le> 1"
    using top_level_once(2) [of w m "Some as"] by (simp add: run)
  then have "?gen tr = []" by simp
  then show "?gen (fst (execute w m (Some as))) = [Reply (ErrorOccurred e)]"
    by (simp add: run)
qed

text \<open>
  C4, amended. A fault thrown inside the guarded region and not handled by an inner
  handler is caught by the top-level \<^verbatim>\<open>catch\<close>: it is logged once as
  \<open>Error in votekick command:\<close>, and one generic reply carrying the same cause follows,
  whose text includes the rendered cause. No run has more than one such log entry or more
  than one generic reply. The configuration lookup of the moderation-enabled check is
  outside the guarded region: when it rejects, the run ends after the lookup, with the
  promise of the command rejected and nothing logged or replied.
\<close>

theorem guarded_faults_caught:
  "(getServerConfig1 w (serverId m) = Inr c \<and> moderation c \<and> 2 \<le> length as
      \<and> tryBody w m as = (tr, Throw e) \<longrightarrow>
        execute w m (Some as) =
          (GetServerConfig (serverId m) # tr @ caught e, delivery w (ErrorOccurred e))
      \<and> filter is_top_level_log (fst (execute w m (Some as))) =
          [LogError ''Error in votekick command:'' e]
      \<and> filter is_generic_reply (fst (execute w m (Some as))) = [Reply (ErrorOccurred e)])
   \<and> length (filter is_top_level_log (fst (execute w m args))) \<le> 1
   \<and> length (filter is_generic_reply (fst (execute w m args))) \<le> 1
   \<and> (getServerConfig1 w (serverId m) = Inl e' \<longrightarrow>
        execute w m args = ([GetServerConfig (serverId m)], Rejected e'))
   \<and> render (ErrorOccurred e) =
       Embed ''Error''
         (''An error occurred while executing the votekick'' @ nl @ '' ```'' @ nl
            @ show_error e @ nl @ ''```'')
         ''#ff0000''"
  using guarded_run [of w m c as tr e] guarded_logged_once [of w m c as tr e]
    top_level_once [of w m args] lookup_propagates [of w m e' args]
  by simp

lemma refetch_down_try:
  "tryBody refetch_down the_msg the_args =
     ([GetServerConfig ''srv'', FetchMembers,
       Reply (VotekickStarted (Some ''Alice'') ''spamming links'' (Some ''carol''))]
        @ markers @ timers @ [FetchMessage ''vote-1''],
      Throw (Error ''message unavailable''))"
  by (simp add: flow_defs delivery_def stage_defs string_defs scenario_defs)

text \<open>
  A rejected re-fetch of the announcement is caught; a rejected first lookup is not.
\<close>

theorem guarded_faults_caught_witness:
  "getServerConfig1 refetch_down (serverId the_msg) = Inr enabled \<and> moderation enabled
   \<and> 2 \<le> length the_args
   \<and> tryBody refetch_down the_msg the_args =
       ([GetServerConfig ''srv'', FetchMembers,
         Reply (VotekickStarted (Some ''Alice'') ''spamming links'' (Some ''carol''))]
          @ markers @ timers @ [FetchMessage ''vote-1''],
        Throw (Error ''message unavailable''))
   \<and> execute refetch_down the_msg (Some the_args) =
       (prelude the_msg alice the_args @ markers @ timers @ [FetchMessage ''vote-1'']
          @ caught (Error ''message unavailable''),
        Fulfilled)
   \<and> getServerConfig1 lookup_down (serverId the_msg) = Inl (Error ''database unavailable'')
   \<and> execute lookup_down the_msg (Some the_args) =
       ([GetServerConfig (serverId the_msg)], Rejected (Error ''database unavailable''))"
proof -
  have entered: "getServerConfig1 refetch_down (serverId the_msg) = Inr enabled"
    "moderation enabled" "2 \<le> length the_args"
    by (simp_all add: scenario_defs)
  have down: "getServerConfig1 lookup_down (serverId the_msg) = Inl (Error ''database unavailable'')"
    by (simp add: scenario_defs)
  have names: "memberName alice = Some ''Alice''" "authorName the_msg = Some ''carol''"
    "reason_of the_args = ''spamming links''" "serverId the_msg = ''srv''"
    "delivery refetch_down (ErrorOccurred (Error ''message unavailable'')) = Fulfilled"
    by (simp_all add: flow_defs delivery_def reason_of_def string_defs scenario_defs)
  from entered down refetch_down_try
    guarded_faults_caught [of refetch_down the_msg enabled the_args
      "[GetServerConfig ''srv'', FetchMembers,
         Reply (VotekickStarted (Some ''Alice'') ''spamming links'' (Some ''carol''))]
          @ markers @ timers @ [FetchMessage ''vote-1'']"
      "Error ''message unavailable''" "Some the_args"]
    guarded_faults_caught [of lookup_down the_msg enabled the_args "[]"
      "Error ''message unavailable''" "Some the_args" "Error ''database unavailable''"]
  show ?thesis by (simp add: names)
qed

text \<open>
  C4, as the code has it. When the configuration lookup of the moderation-enabled check
  rejects, the fault is not caught: nothing is logged, no reply is sent, and the promise of
  the command is rejected with the fault.
\<close>

theorem lookup_fault_counterexample:
  "execute lookup_down the_msg (Some the_args) =
     ([GetServerConfig ''srv''], Rejected (Error ''database unavailable''))"
  by (simp add: flow_defs scenario_defs)

subsection \<open>Order of the eligibility checks\<close>

lemma gate_disabled:
  "getServerConfig1 w (serverId m) = Inr c \<Longrightarrow> \<not> moderation c \<Longrightarrow>
     execute w m args =
       ([GetServerConfig (serverId m), Reply FeatureDisabled], delivery w FeatureDisabled)"
  by (simp add: execute_def await_def andThen_simps settle_def return_reply_def)

lemma gate_usage:
  "getServerConfig1 w (serverId m) = Inr c \<Longrightarrow> moderation c \<Longrightarrow>
   args = None \<or> (\<exists>as. args = Some as \<and> length as < 2) \<Longrightarrow>
     execute w m args =
       ([GetServerConfig (serverId m), Reply InvalidUsage], delivery w InvalidUsage)"
  by (auto simp add: execute_def await_def andThen_simps settle_def return_reply_def)

lemma gate_blocked:
  "getServerConfig1 w (serverId m) = Inr c \<Longrightarrow> moderation c \<Longrightarrow> 2 \<le> length as \<Longrightarrow>
   getServerConfig2 w (serverId m) = Inr c2 \<Longrightarrow> authorId m \<in> set (blockedUsers c2) \<Longrightarrow>
     execute w m (Some as) =
       ([GetServerConfig (serverId m), GetServerConfig (serverId m), Reply AccessDenied],
        delivery w AccessDenied)"
  by (simp add: execute_def tryBody_def eligibility_def array_includes_def await_def
      andThen_simps settle_def catch_all_def return_reply_def)

lemma gate_not_found:
  "getServerConfig1 w (serverId m) = Inr c \<Longrightarrow> moderation c \<Longrightarrow> 2 \<le> length as \<Longrightarrow>
   getServerConfig2 w (serverId m) = Inr c2 \<Longrightarrow> authorId m \<notin> set (blockedUsers c2) \<Longrightarrow>
   snd (resolveTarget w m as) = Next None \<Longrightarrow>
     execute w m (Some as) =
       ([GetServerConfig (serverId m), GetServerConfig (serverId m)]
          @ fst (resolveTarget w m as) @ [Reply UserNotFound],
        delivery w UserNotFound)"
  by (cases rule: execute_runs [of w m "Some as"]) (auto simp: resolveTarget_def)

lemma gate_bot:
  "getServerConfig1 w (serverId m) = Inr c \<Longrightarrow> moderation c \<Longrightarrow> 2 \<le> length as \<Longrightarrow>
   getServerConfig2 w (serverId m) = Inr c2 \<Longrightarrow> authorId m \<notin> set (blockedUsers c2) \<Longrightarrow>
   snd (resolveTarget w m as) = Next (Some t) \<Longrightarrow> is_bot t \<Longrightarrow>
     execute w m (Some as) =
       ([GetServerConfig (serverId m), GetServerConfig (serverId m), FetchMembers,
         Reply CannotVotekickBot],
        delivery w CannotVotekickBot)"
  by (cases rule: execute_runs [of w m "Some as"]) (auto simp: resolveTarget_def)

text \<open>
  C5. The eligibility checks run in the order moderation-enabled, argument-count,
  blocklist, target resolution, automated-account, and the first failure ends the run
  with its reply: once the first lookup has answered, a disabled feature is answered
  whatever the arguments are; then fewer than two arguments; then a blocked initiator,
  whatever the roster holds and whether or not the first argument names a member (the
  roster is not fetched); then an unresolved target; then a bot.
\<close>

theorem eligibility_order:
  "getServerConfig1 w (serverId m) = Inr c \<Longrightarrow>
     (\<not> moderation c \<longrightarrow>
        execute w m args =
          ([GetServerConfig (serverId m), Reply FeatureDisabled], delivery w FeatureDisabled))
   \<and> (moderation c \<and> (args = None \<or> (\<exists>as. args = Some as \<and> length as < 2)) \<longrightarrow>
        execute w m args =
          ([GetServerConfig (serverId m), Reply InvalidUsage], delivery w InvalidUsage))
   \<and> (moderation c \<and> 2 \<le> length as \<and> getServerConfig2 w (serverId m) = Inr c2 \<longrightarrow>
        (authorId m \<in> set (blockedUsers c2) \<longrightarrow>
           execute w m (Some as) =
             ([GetServerConfig (serverId m), GetServerConfig (serverId m), Reply AccessDenied],
              delivery w AccessDenied))
      \<and> (authorId m \<notin> set (blockedUsers c2) \<and> snd (resolveTarget w m as) = Next None \<longrightarrow>
           execute w m (Some as) =
             ([GetServerConfig (serverId m), GetServerConfig (serverId m)]
                @ fst (resolveTarget w m as) @ [Reply UserNotFound],
              delivery w UserNotFound))
      \<and> (authorId m \<notin> set (blockedUsers c2) \<and> snd (resolveTarget w m as) = Next (Some t)
            \<and> is_bot t \<longrightarrow>
           execute w m (Some as) =
             ([GetServerConfig (serverId m), GetServerConfig (serverId m), FetchMembers,
               Reply CannotVotekickBot],
              delivery w CannotVotekickBot)))"
  using gate_disabled [of w m c args] gate_usage [of w m c args] gate_blocked [of w m c as c2]
    gate_not_found [of w m c as c2] gate_bot [of w m c as c2 t]
  by blast

lemma bad_target: "resolveTarget scenario_A mallory_msg bad_args = ([FetchMembers], Next None)"
  by (simp add: flow_defs stage_defs string_defs scenario_defs)

lemma robot_target:
  "resolveTarget with_robot the_msg robot_args = ([FetchMembers], Next (Some robot))"
  by (simp add: flow_defs stage_defs string_defs scenario_defs)

text \<open>
  mallory is blocked and names nobody on the roster: the answer is ``Access Denied'', where
  carol with the same arguments gets ``User not found''.
\<close>

theorem eligibility_order_witness:
  "getServerConfig1 moderation_off (serverId mallory_msg) =
       Inr \<lparr>moderation = False, blockedUsers = []\<rparr>
   \<and> execute moderation_off mallory_msg None =
       ([GetServerConfig ''srv'', Reply FeatureDisabled], Fulfilled)
   \<and> getServerConfig1 scenario_A (serverId mallory_msg) = Inr enabled \<and> moderation enabled
   \<and> execute scenario_A mallory_msg (Some [''nobody'']) =
       ([GetServerConfig ''srv'', Reply InvalidUsage], Fulfilled)
   \<and> 2 \<le> length bad_args \<and> getServerConfig2 scenario_A (serverId mallory_msg) = Inr enabled
   \<and> authorId mallory_msg \<in> set (blockedUsers enabled)
   \<and> snd (resolveTarget scenario_A mallory_msg bad_args) = Next None
   \<and> execute scenario_A mallory_msg (Some bad_args) =
       ([GetServerConfig ''srv'', GetServerConfig ''srv'', Reply AccessDenied], Fulfilled)
   \<and> authorId the_msg \<notin> set (blockedUsers enabled)
   \<and> execute scenario_A the_msg (Some bad_args) =
       ([GetServerConfig ''srv'', GetServerConfig ''srv'', FetchMembers, Reply UserNotFound],
        Fulfilled)
   \<and> snd (resolveTarget with_robot the_msg robot_args) = Next (Some robot) \<and> is_bot robot
   \<and> execute with_robot the_msg (Some robot_args) =
       ([GetServerConfig ''srv'', GetServerConfig ''srv'', FetchMembers,
         Reply CannotVotekickBot],
        Fulfilled)"
proof -
  have facts:
    "getServerConfig1 moderation_off (serverId mallory_msg) =
       Inr \<lparr>moderation = False, blockedUsers = []\<rparr>"
    "getServerConfig1 scenario_A (serverId mallory_msg) = Inr enabled"
    "getServerConfig1 scenario_A (serverId the_msg) = Inr enabled"
    "getServerConfig1 with_robot (serverId the_msg) = Inr enabled"
    "getServerConfig2 scenario_A (serverId mallory_msg) = Inr enabled"
    "getServerConfig2 scenario_A (serverId the_msg) = Inr enabled"
    "getServerConfig2 with_robot (serverId the_msg) = Inr enabled"
    "moderation enabled" "2 \<le> length bad_args" "2 \<le> length robot_args"
    "length [''nobody''] < 2"
    "authorId mallory_msg \<in> set (blockedUsers enabled)"
    "authorId the_msg \<notin> set (blockedUsers enabled)"
    "is_bot robot"
    "serverId mallory_msg = ''srv''" "serverId the_msg = ''srv''"
    by (simp_all add: flow_defs is_bot_def scenario_defs)
  have sent: "delivery moderation_off FeatureDisabled = Fulfilled"
    "delivery scenario_A InvalidUsage = Fulfilled"
    "delivery scenario_A AccessDenied = Fulfilled"
    "delivery scenario_A UserNotFound = Fulfilled"
    "delivery with_robot CannotVotekickBot = Fulfilled"
    by (simp_all add: delivery_def scenario_defs)
  have other: "resolveTarget scenario_A the_msg bad_args = ([FetchMembers], Next None)"
    by (simp add: flow_defs stage_defs string_defs scenario_defs)
  from facts sent bad_target robot_target other
    eligibility_order [of moderation_off mallory_msg
      "\<lparr>moderation = False, blockedUsers = []\<rparr>" None bad_args enabled robot]
    eligibility_order [of scenario_A mallory_msg enabled "Some [''nobody'']" bad_args enabled robot]
    eligibility_order [of scenario_A the_msg enabled "Some [''nobody'']" bad_args enabled robot]
    eligibility_order [of with_robot the_msg enabled "Some [''nobody'']" robot_args enabled robot]
  show ?thesis by simp
qed

subsection \<open>Failure of the reaction setup\<close>

lemma reaction_failure_run:
  assumes "React YES_MARKER \<in> set (fst (execute w m args))"
    and "react w YES_MARKER = Inl e1 \<or> react w NO_MARKER = Inl e2"
  shows "\<exists>as t e. args = Some as
           \<and> (react w YES_MARKER = Inl e \<or> react w NO_MARKER = Inl e)
           \<and> execute w m args =
               (prelude m t as @ markers
                  @ [LogError ''Failed to add vote reactions:'' e, Reply ReactionError]
                  @ (case msg_reply w ReactionError of Inl e' \<Rightarrow> caught e' | Inr _ \<Rightarrow> []),
                case msg_reply w ReactionError of
                  Inl e' \<Rightarrow> delivery w (ErrorOccurred e') | Inr _ \<Rightarrow> Fulfilled)"
proof (cases rule: execute_runs [of w m args])
  case (reaction_failed c as c2 s roster t vm e x)
  from reaction_failed(12) have "react w YES_MARKER = Inl e \<or> react w NO_MARKER = Inl e"
    by (rule promise_all2_error)
  with reaction_failed show ?thesis
    by (intro exI [of _ as] exI [of _ t] exI [of _ e]) simp
next
  case (notice_failed c as c2 s roster t vm e e')
  from notice_failed(12) have "react w YES_MARKER = Inl e \<or> react w NO_MARKER = Inl e"
    by (rule promise_all2_error)
  with notice_failed show ?thesis
    by (intro exI [of _ as] exI [of _ t] exI [of _ e]) simp
qed (use assms in \<open>auto simp: YES_MARKER_def\<close>)

lemma reaction_failure_stops:
  assumes "React YES_MARKER \<in> set (fst (execute w m args))"
    and "react w YES_MARKER = Inl e1 \<or> react w NO_MARKER = Inl e2"
  shows "filter after_setup (fst (execute w m args)) = []"
    and "count_list (fst (execute w m args)) FetchMembers = 1"
  using assms by (cases rule: execute_runs [of w m args]; auto simp: YES_MARKER_def)+

text \<open>
  C6. If a run gets as far as attaching the vote markers and either attachment fails, the
  failure is logged and the reply ``Failed to start vote due to reaction error'' is the
  next thing sent; the run ends there (or, when that reply cannot be delivered, in the
  top-level handler). No later stage runs: no timer is started, the announcement is not
  re-fetched, the roster is fetched only the once for target resolution, no decision is
  reported and the removal is not attempted.
\<close>

theorem reaction_failure_aborts:
  "React YES_MARKER \<in> set (fst (execute w m args))
   \<and> (react w YES_MARKER = Inl e1 \<or> react w NO_MARKER = Inl e2) \<Longrightarrow>
     (\<exists>as t e. args = Some as
        \<and> (react w YES_MARKER = Inl e \<or> react w NO_MARKER = Inl e)
        \<and> execute w m args =
            (prelude m t as @ markers
               @ [LogError ''Failed to add vote reactions:'' e, Reply ReactionError]
               @ (case msg_reply w ReactionError of Inl e' \<Rightarrow> caught e' | Inr _ \<Rightarrow> []),
             case msg_reply w ReactionError of
               Inl e' \<Rightarrow> delivery w (ErrorOccurred e') | Inr _ \<Rightarrow> Fulfilled))
   \<and> filter after_setup (fst (execute w m args)) = []
   \<and> count_list (fst (execute w m args)) FetchMembers = 1"
  using reaction_failure_run [of w m args e1 e2] reaction_failure_stops [of w m args e1 e2]
  by blast

lemma no_marker_allowed_run:
  "execute no_marker_allowed the_msg (Some the_args) =
     (prelude the_msg alice the_args @ markers
        @ [LogError ''Failed to add vote reactions:'' (Error ''Missing permission''),
           Reply ReactionError],
      Fulfilled)"
  by (simp add: flow_defs delivery_def stage_defs string_defs scenario_defs)

theorem reaction_failure_aborts_witness:
  "React YES_MARKER \<in> set (fst (execute no_marker_allowed the_msg (Some the_args)))
   \<and> react no_marker_allowed NO_MARKER = Inl (Error ''Missing permission'')
   \<and> filter after_setup (fst (execute no_marker_allowed the_msg (Some the_args))) = []
   \<and> count_list (fst (execute no_marker_allowed the_msg (Some the_args))) FetchMembers = 1
   \<and> execute no_marker_allowed the_msg (Some the_args) =
       (prelude the_msg alice the_args @ markers
          @ [LogError ''Failed to add vote reactions:'' (Error ''Missing permission''),
             Reply ReactionError],
        Fulfilled)"
proof -
  have reached: "React YES_MARKER \<in> set (fst (execute no_marker_allowed the_msg (Some the_args)))"
    by (simp add: no_marker_allowed_run)
  have denied: "react no_marker_allowed NO_MARKER = Inl (Error ''Missing permission'')"
    by (simp add: no_marker_allowed_def)
  from reached denied no_marker_allowed_run
    reaction_failure_aborts [of no_marker_allowed the_msg "Some the_args"
      "Error ''Missing permission''" "Error ''Missing permission''"]
  show ?thesis by simp
qed

subsection \<open>A fault in target resolution\<close>

lemma roster_fault_run:
  assumes "fetchMembers1 w = Inl e" and "FetchMembers \<in> set (fst (execute w m args))"
  shows "execute w m args =
           ([GetServerConfig (serverId m), GetServerConfig (serverId m), FetchMembers,
             LogError ''Error fetching members:'' e, Reply UserNotFound],
            delivery w UserNotFound)"
  using assms by (cases rule: execute_runs [of w m args]) auto

lemma no_match_run:
  assumes "fetchMembers1 w = Inl e" and "FetchMembers \<in> set (fst (execute w m args))"
  shows "execute (w\<lparr>fetchMembers1 := Inr (Some [])\<rparr>) m args =
           ([GetServerConfig (serverId m), GetServerConfig (serverId m), FetchMembers,
             Reply UserNotFound],
            delivery w UserNotFound)"
  using assms
proof (cases rule: execute_runs [of w m args])
  case (roster_rejected c as c2 s e')
  then show ?thesis
    by (cases rule: execute_runs [of "w\<lparr>fetchMembers1 := Inr (Some [])\<rparr>" m args])
      (auto simp: delivery_def)
qed auto

text \<open>
  C7. If the roster fetch of target resolution rejects, the fault is logged as
  \<open>Error fetching members:\<close> and the run ends with the same ``User not found'' reply, and
  the same outcome, as when the roster holds no match; the top-level handler does not
  run and no generic error is replied.
\<close>

theorem resolution_fault_swallowed:
  "fetchMembers1 w = Inl e \<and> FetchMembers \<in> set (fst (execute w m args)) \<Longrightarrow>
     execute w m args =
       ([GetServerConfig (serverId m), GetServerConfig (serverId m), FetchMembers,
         LogError ''Error fetching members:'' e, Reply UserNotFound],
        delivery w UserNotFound)
   \<and> execute (w\<lparr>fetchMembers1 := Inr (Some [])\<rparr>) m args =
       ([GetServerConfig (serverId m), GetServerConfig (serverId m), FetchMembers,
         Reply UserNotFound],
        delivery w UserNotFound)
   \<and> filter is_top_level_log (fst (execute w m args)) = []
   \<and> filter is_generic_reply (fst (execute w m args)) = []"
  using roster_fault_run [of w e m args] no_match_run [of w e m args]
  by simp

lemma roster_down_run:
  "execute roster_down the_msg (Some the_args) =
     ([GetServerConfig ''srv'', GetServerConfig ''srv'', FetchMembers,
       LogError ''Error fetching members:'' (Error ''roster unavailable''),
       Reply UserNotFound],
      Fulfilled)"
  by (simp add: flow_defs delivery_def stage_defs string_defs scenario_defs)

theorem resolution_fault_swallowed_witness:
  "fetchMembers1 roster_down = Inl (Error ''roster unavailable'')
   \<and> FetchMembers \<in> set (fst (execute roster_down the_msg (Some the_args)))
   \<and> execute roster_down the_msg (Some the_args) =
       ([GetServerConfig ''srv'', GetServerConfig ''srv'', FetchMembers,
         LogError ''Error fetching members:'' (Error ''roster unavailable''),
         Reply UserNotFound],
        Fulfilled)
   \<and> execute (roster_down\<lparr>fetchMembers1 := Inr (Some [])\<rparr>) the_msg (Some the_args) =
       ([GetServerConfig ''srv'', GetServerConfig ''srv'', FetchMembers, Reply UserNotFound],
        Fulfilled)
   \<and> filter is_top_level_log (fst (execute roster_down the_msg (Some the_args))) = []
   \<and> filter is_generic_reply (fst (execute roster_down the_msg (Some the_args))) = []"
proof -
  have down: "fetchMembers1 roster_down = Inl (Error ''roster unavailable'')"
    by (simp add: roster_down_def)
  have reached: "FetchMembers \<in> set (fst (execute roster_down the_msg (Some the_args)))"
    by (simp add: roster_down_run)
  have names: "serverId the_msg = ''srv''" "delivery roster_down UserNotFound = Fulfilled"
    by (simp_all add: flow_defs delivery_def scenario_defs)
  from down reached
    resolution_fault_swallowed [of roster_down "Error ''roster unavailable''" the_msg
      "Some the_args"]
  show ?thesis by (simp add: names)
qed

subsection \<open>The timeout race\<close>

lemma resumes_after_window:
  assumes "SetTimeout d \<in> set (fst (execute w m args))"
  shows "\<exists>pre i rest. fst (execute w m args) = pre @ timers @ FetchMessage i # rest
           \<and> filter after_setup pre = []"
  using assms
proof (cases rule: execute_runs [of w m args])
  case (refetch_rejected c as c2 s roster t vm e)
  then show ?thesis
    by (intro exI [of _ "prelude m t as @ markers"] exI [of _ "message_id vm"]
        exI [of _ "caught e"]) simp
next
  case (refetch_empty c as c2 s roster t vm)
  then show ?thesis
    by (intro exI [of _ "prelude m t as @ markers"] exI [of _ "message_id vm"]
        exI [of _ "caught (Error ''Could not fetch vote message'')"]) simp
next
  case (count_rejected c as c2 s roster t vm fetched e)
  then show ?thesis
    by (intro exI [of _ "prelude m t as @ markers"] exI [of _ "message_id vm"]
        exI [of _ "FetchMembers # caught e"]) simp
next
  case (count_missing c as c2 s roster t vm fetched)
  then show ?thesis
    by (intro exI [of _ "prelude m t as @ markers"] exI [of _ "message_id vm"]
        exI [of _ "FetchMembers # caught (Error ''Failed to fetch member count'')"]) simp
next
  case (failed c as c2 s roster t vm fetched members)
  then show ?thesis
    by (intro exI [of _ "prelude m t as @ markers"] exI [of _ "message_id vm"]
        exI [of _ "[FetchMembers, Reply (VotekickFailed (memberName t)
          (votes fetched YES_MARKER) (votes fetched NO_MARKER)
          (requiredVotes (length members)))]"]) simp
next
  case (kicked c as c2 s roster t vm fetched members)
  then show ?thesis
    by (intro exI [of _ "prelude m t as @ markers"] exI [of _ "message_id vm"]
        exI [of _ "[FetchMembers, Kick (member_id t),
          Reply (VotekickSuccessful (memberName t) (votes fetched YES_MARKER)
            (votes fetched NO_MARKER) (reason_of as))]"]) simp
next
  case (kick_failed c as c2 s roster t vm fetched members e)
  then show ?thesis
    by (intro exI [of _ "prelude m t as @ markers"] exI [of _ "message_id vm"]
        exI [of _ "[FetchMembers, Kick (member_id t),
          LogError ''Failed to kick user after successful votekick:'' e,
          Reply KickFailed]"]) simp
qed (use assms in auto)

text \<open>
  C8. The race is between two timers started together: the primary one resolves after the
  duration and the safety one rejects with \<open>Vote timed out\<close> after the duration plus 1000
  ms. The primary delay is strictly smaller, so the primary timer fires first and the race
  resolves, for every duration and for the 60000 ms of the command; the awaited race never
  throws. In every run that starts the timers, the next thing the run does is re-fetch the
  announcement.
\<close>

theorem timeout_race_resolves:
  "primary_timer d = (d, Resolves)
   \<and> safety_timer d = (d + 1000, Rejects (Error ''Vote timed out''))
   \<and> fst (primary_timer d) < fst (safety_timer d)
   \<and> first_to_fire (primary_timer d) [safety_timer d] = primary_timer d
   \<and> promise_race (primary_timer d) [safety_timer d] = Resolves
   \<and> timeoutRace d = ([SetTimeout d, SetTimeout (d + 1000)], Next ())
   \<and> timeoutRace VOTE_DURATION = ([SetTimeout 60000, SetTimeout 61000], Next ())
   \<and> (SetTimeout d' \<in> set (fst (execute w m args)) \<longrightarrow>
        (\<exists>pre i rest. fst (execute w m args) = pre @ timers @ FetchMessage i # rest
           \<and> filter after_setup pre = []))"
  using resumes_after_window [of d' w m args]
  by (simp add: timeoutRace_def promise_race_def primary_timer_def safety_timer_def
      VOTE_DURATION_def)

theorem timeout_race_resolves_witness:
  "SetTimeout 60000 \<in> set (fst (execute scenario_A the_msg (Some the_args)))
   \<and> (\<exists>pre i rest.
         fst (execute scenario_A the_msg (Some the_args)) = pre @ timers @ FetchMessage i # rest
         \<and> filter after_setup pre = [])
   \<and> timeoutRace VOTE_DURATION = ([SetTimeout 60000, SetTimeout 61000], Next ())"
proof -
  have started: "SetTimeout 60000 \<in> set (fst (execute scenario_A the_msg (Some the_args)))"
    by (simp add: scenario_A_run)
  with timeout_race_resolves [of 60000 60000 scenario_A the_msg "Some the_args"]
  show ?thesis by blast
qed

subsection \<open>Missing vote markers\<close>

lemma votes_missing:
  "reactions fetched = None \<or> (\<exists>r. reactions fetched = Some r \<and> r marker = None) \<Longrightarrow>
     votes fetched marker = 0"
  by (auto simp: votes_def)

lemma tally_counted:
  "msg_channel m = Some ch \<Longrightarrow> server_of m = Some s \<Longrightarrow>
   fetchMessage w (message_id vm) = Inr (Some fetched) \<Longrightarrow>
   fetchMembers2 w = Inr (Some members) \<Longrightarrow> members \<noteq> [] \<Longrightarrow>
     tally w m vm =
       ([FetchMessage (message_id vm), FetchMembers],
        Next (votes fetched YES_MARKER, votes fetched NO_MARKER, length members))"
  by (simp add: tally_def fetchVoteMessage_def fetchMemberCount_def await_def andThen_simps)

lemma no_markers_run:
  assumes "FetchMessage i \<in> set (fst (execute w m args))"
    and "fetchMessage w i = Inr (Some fetched)" and "reactions fetched = None"
    and "fetchMembers2 w = Inr (Some members)" and "members \<noteq> []"
  shows "\<exists>as t. args = Some as \<and> execute w m args =
           (prelude m t as @ markers @ timers
              @ [FetchMessage i, FetchMembers,
                 Reply (VotekickFailed (memberName t) 0 0 (requiredVotes (length members)))],
            delivery w (VotekickFailed (memberName t) 0 0 (requiredVotes (length members))))"
  using assms
  by (cases rule: execute_runs [of w m args]) (auto simp: votes_def votekickPasses_def)

text \<open>
  C9. A marker that is absent from the reactions of the re-fetched announcement (or an
  announcement without reactions at all) counts as zero votes for that side. The tally
  does not throw on that account: whenever the announcement and a non-empty roster are
  fetched it yields the two counts and the roster size, and a run whose announcement has
  no reactions goes on to the quorum decision on zero votes to zero.
\<close>

theorem missing_marker_counts_zero:
  "(reactions fetched = None \<or> (\<exists>r. reactions fetched = Some r \<and> r marker = None) \<longrightarrow>
      votes fetched marker = 0)
   \<and> (msg_channel m = Some ch \<and> server_of m = Some s
        \<and> fetchMessage w (message_id vm) = Inr (Some fetched)
        \<and> fetchMembers2 w = Inr (Some members) \<and> members \<noteq> [] \<longrightarrow>
        tally w m vm =
          ([FetchMessage (message_id vm), FetchMembers],
           Next (votes fetched YES_MARKER, votes fetched NO_MARKER, length members)))
   \<and> (FetchMessage i \<in> set (fst (execute w m args)) \<and> fetchMessage w i = Inr (Some fetched)
        \<and> reactions fetched = None \<and> fetchMembers2 w = Inr (Some members) \<and> members \<noteq> [] \<longrightarrow>
        (\<exists>as t. args = Some as \<and> execute w m args =
           (prelude m t as @ markers @ timers
              @ [FetchMessage i, FetchMembers,
                 Reply (VotekickFailed (memberName t) 0 0 (requiredVotes (length members)))],
            delivery w (VotekickFailed (memberName t) 0 0 (requiredVotes (length members))))))"
  using votes_missing [of fetched marker] tally_counted [of m ch s w vm fetched members]
    no_markers_run [of i w m args fetched members]
  by blast

lemma markers_missing_run:
  "execute markers_missing the_msg (Some the_args) =
     (prelude the_msg alice the_args @ markers @ timers
        @ [FetchMessage ''vote-1'', FetchMembers, Reply (VotekickFailed (Some ''Alice'') 0 0 6)],
      Fulfilled)"
  by (simp add: flow_defs delivery_def stage_defs quorum_defs string_defs scenario_defs)

theorem missing_marker_counts_zero_witness:
  "reactions posted = None \<and> votes posted YES_MARKER = 0 \<and> votes posted NO_MARKER = 0
   \<and> msg_channel the_msg = Some home \<and> server_of the_msg = Some \<lparr>server_id = ''srv''\<rparr>
   \<and> fetchMessage markers_missing (message_id posted) = Inr (Some posted)
   \<and> fetchMembers2 markers_missing = Inr (Some (alice # townsfolk))
   \<and> tally markers_missing the_msg posted =
       ([FetchMessage (message_id posted), FetchMembers],
        Next (votes posted YES_MARKER, votes posted NO_MARKER, length (alice # townsfolk)))
   \<and> FetchMessage ''vote-1'' \<in> set (fst (execute markers_missing the_msg (Some the_args)))
   \<and> (\<exists>as t. Some the_args = Some as \<and> execute markers_missing the_msg (Some the_args) =
         (prelude the_msg t as @ markers @ timers
            @ [FetchMessage ''vote-1'', FetchMembers,
               Reply (VotekickFailed (memberName t) 0 0
                 (requiredVotes (length (alice # townsfolk))))],
          delivery markers_missing
            (VotekickFailed (memberName t) 0 0 (requiredVotes (length (alice # townsfolk))))))"
proof -
  have facts: "reactions posted = None" "msg_channel the_msg = Some home"
    "server_of the_msg = Some \<lparr>server_id = ''srv''\<rparr>"
    "fetchMessage markers_missing (message_id posted) = Inr (Some posted)"
    "fetchMessage markers_missing ''vote-1'' = Inr (Some posted)"
    "fetchMembers2 markers_missing = Inr (Some (alice # townsfolk))"
    "alice # townsfolk \<noteq> []"
    by (simp_all add: flow_defs scenario_defs)
  have reached:
    "FetchMessage ''vote-1'' \<in> set (fst (execute markers_missing the_msg (Some the_args)))"
    by (simp add: markers_missing_run)
  from facts reached
    missing_marker_counts_zero [of posted YES_MARKER the_msg home "\<lparr>server_id = ''srv''\<rparr>"
      markers_missing posted "alice # townsfolk" "''vote-1''" "Some the_args"]
    missing_marker_counts_zero [of posted NO_MARKER the_msg home "\<lparr>server_id = ''srv''\<rparr>"
      markers_missing posted "alice # townsfolk" "''vote-1''" "Some the_args"]
  show ?thesis by blast
qed

end
